theory Spec2Isabelle
  imports Main
begin

section \<open>Values of the runtime\<close>

text \<open>
  The bot (\<^verbatim>\<open>src/index.js\<close>, class \<^verbatim>\<open>MinecraftVoteBot\<close>) reads two JSON payloads from
  the vote provider. A JSON value is modelled as a datatype; numbers are the integers
  (the provider sends counts and epoch seconds; fractions and values beyond
  \<open>2^53\<close> are not modelled), a string is a list of code units below 256, and an object
  is the list of its properties in enumeration order.
\<close>

datatype json =
    JNull
  | JBool bool
  | JNum int
  | JStr string
  | JArr "json list"
  | JObj "(string \<times> json) list"

text \<open>An exception of the runtime, as a value: \<open>Inl\<close> of a sum is a throw.\<close>

datatype js_error = TypeError | ValidationError | TransportError | PersistenceError

subsection \<open>\<^verbatim>\<open>Number.prototype.toString\<close> on integers\<close>

definition digitChar :: "nat \<Rightarrow> char" where
  "digitChar d = ''0123456789'' ! d"

fun natToString :: "nat \<Rightarrow> string" where
  "natToString n =
     (if n < 10 then [digitChar n] else natToString (n div 10) @ [digitChar (n mod 10)])"

declare natToString.simps [simp del]

definition numberToString :: "int \<Rightarrow> string" where
  "numberToString i = (if i < 0 then CHR ''-'' # natToString (nat (- i)) else natToString (nat i))"

text \<open>\<^verbatim>\<open>String.prototype.padStart(2, '0')\<close>.\<close>

definition padStart2 :: "string \<Rightarrow> string" where
  "padStart2 s = replicate (2 - length s) CHR ''0'' @ s"

subsection \<open>\<^verbatim>\<open>JSON.stringify\<close>\<close>

definition hexDigit :: "nat \<Rightarrow> char" where
  "hexDigit d = ''0123456789abcdef'' ! d"

text \<open>
  \<^verbatim>\<open>QuoteJSONString\<close>: the quote, the backslash and the control characters are escaped,
  the named ones by their short form and the others as \<^verbatim>\<open>\u00xx\<close>.
\<close>

definition quoteChar :: "char \<Rightarrow> string" where
  "quoteChar c =
     (let n = (of_char c :: nat) in
      if n = 34 then [CHR 0x5C, CHR 0x22]
      else if n = 92 then [CHR 0x5C, CHR 0x5C]
      else if n = 8 then [CHR 0x5C, CHR ''b'']
      else if n = 12 then [CHR 0x5C, CHR ''f'']
      else if n = 10 then [CHR 0x5C, CHR ''n'']
      else if n = 13 then [CHR 0x5C, CHR ''r'']
      else if n = 9 then [CHR 0x5C, CHR ''t'']
      else if n < 32 then [CHR 0x5C, CHR ''u'', CHR ''0'', CHR ''0'', hexDigit (n div 16), hexDigit (n mod 16)]
      else [c])"

definition quoteJSONString :: "string \<Rightarrow> string" where
  "quoteJSONString s = CHR 0x22 # concat (map quoteChar s) @ [CHR 0x22]"

fun joinComma :: "string list \<Rightarrow> string" where
  "joinComma [] = []"
| "joinComma [s] = s"
| "joinComma (s # t # ss) = s @ CHR '','' # joinComma (t # ss)"

fun stringify :: "json \<Rightarrow> string"
  and stringifyElements :: "json list \<Rightarrow> string list"
  and stringifyProperties :: "(string \<times> json) list \<Rightarrow> string list" where
  "stringify JNull = ''null''"
| "stringify (JBool b) = (if b then ''true'' else ''false'')"
| "stringify (JNum i) = numberToString i"
| "stringify (JStr s) = quoteJSONString s"
| "stringify (JArr xs) = CHR ''['' # joinComma (stringifyElements xs) @ '']''"
| "stringify (JObj ps) = CHR ''{'' # joinComma (stringifyProperties ps) @ ''}''"
| "stringifyElements [] = []"
| "stringifyElements (x # xs) = stringify x # stringifyElements xs"
| "stringifyProperties [] = []"
| "stringifyProperties (p # ps) =
     (quoteJSONString (fst p) @ CHR '':'' # stringify (snd p)) # stringifyProperties ps"

section \<open>The provider's payloads\<close>

text \<open>
  An entry of \<^verbatim>\<open>voteData.voters\<close>: the program reads \<^verbatim>\<open>nickname\<close> and \<^verbatim>\<open>votes\<close>
  (through \<^verbatim>\<open>parseInt\<close>, here an integer already); \<open>voterRest\<close> holds the properties it
  never reads. An entry of \<^verbatim>\<open>timestampData.votes\<close> has \<^verbatim>\<open>date\<close>, \<^verbatim>\<open>timestamp\<close> and
  \<^verbatim>\<open>nickname\<close>.
\<close>

record voter =
  nickname :: string
  votes :: int
  voterRest :: "(string \<times> json) list"

record vote =
  date :: string
  timestamp :: int
  voteNickname :: string
  voteRest :: "(string \<times> json) list"

text \<open>
  The body of a response. \<open>None\<close> in a field is a property the body does not have
  (\<^verbatim>\<open>undefined\<close>): the code tests \<^verbatim>\<open>!voteData.voters\<close> and \<^verbatim>\<open>timestampData?.votes || []\<close>.
\<close>

record vote_data =
  name :: "string option"
  voters :: "voter list option"

record timestamp_data =
  votesOf :: "vote list option"

definition voterJson :: "voter \<Rightarrow> json" where
  "voterJson v = JObj ((''nickname'', JStr (nickname v)) # (''votes'', JNum (votes v)) # voterRest v)"

definition voteJson :: "vote \<Rightarrow> json" where
  "voteJson e =
     JObj ((''date'', JStr (date e)) # (''timestamp'', JNum (timestamp e))
           # (''nickname'', JStr (voteNickname e)) # voteRest e)"

section \<open>\<^verbatim>\<open>generateDataHash\<close>\<close>

text \<open>\<^verbatim>\<open>ToInt32\<close>: the value modulo \<open>2^32\<close>, read as two's complement.\<close>

definition toInt32 :: "int \<Rightarrow> int" where
  "toInt32 x = (x + 2147483648) mod 4294967296 - 2147483648"

text \<open>\<^verbatim>\<open>hash << 5\<close>.\<close>

definition shiftLeft5 :: "int \<Rightarrow> int" where
  "shiftLeft5 h = toInt32 (toInt32 h * 32)"

text \<open>
  One turn of the loop: \<^verbatim>\<open>hash = ((hash << 5) - hash) + char; hash = hash & hash\<close>.
\<close>

definition hashStep :: "int \<Rightarrow> char \<Rightarrow> int" where
  "hashStep h c = toInt32 ((shiftLeft5 h - h) + int (of_char c))"

fun hashLoop :: "int \<Rightarrow> string \<Rightarrow> int" where
  "hashLoop h [] = h"
| "hashLoop h (c # cs) = hashLoop (hashStep h c) cs"

text \<open>\<^verbatim>\<open>voteData?.voters || []\<close> and \<^verbatim>\<open>timestampData?.votes || []\<close>.\<close>

definition votersOrEmpty :: "vote_data option \<Rightarrow> voter list" where
  "votersOrEmpty voteData =
     (case voteData of None \<Rightarrow> [] | Some d \<Rightarrow> (case voters d of None \<Rightarrow> [] | Some vs \<Rightarrow> vs))"

definition votesOrEmpty :: "timestamp_data option \<Rightarrow> vote list" where
  "votesOrEmpty timestampData =
     (case timestampData of None \<Rightarrow> [] | Some d \<Rightarrow> (case votesOf d of None \<Rightarrow> [] | Some es \<Rightarrow> es))"

definition dataString :: "vote_data option \<Rightarrow> timestamp_data option \<Rightarrow> string" where
  "dataString voteData timestampData =
     stringify (JObj [(''voters'', JArr (map voterJson (votersOrEmpty voteData))),
                      (''timestamps'', JArr (map voteJson (votesOrEmpty timestampData)))])"

definition generateDataHash :: "vote_data option \<Rightarrow> timestamp_data option \<Rightarrow> string" where
  "generateDataHash voteData timestampData = numberToString (hashLoop 0 (dataString voteData timestampData))"

section \<open>\<^verbatim>\<open>convertESTtoIST\<close>\<close>

subsection \<open>String operations\<close>

text \<open>
  \<^verbatim>\<open>String.prototype.replace\<close> with a string pattern: the first occurrence only.
\<close>

fun replaceFirst :: "string \<Rightarrow> string \<Rightarrow> string \<Rightarrow> string" where
  "replaceFirst pat rep [] = (if pat = [] then rep else [])"
| "replaceFirst pat rep (c # cs) =
     (if take (length pat) (c # cs) = pat then rep @ drop (length pat) (c # cs)
      else c # replaceFirst pat rep cs)"

text \<open>The white space and line terminators of \<^verbatim>\<open>trim\<close> among the code units below 256.\<close>

definition isWhiteSpace :: "char \<Rightarrow> bool" where
  "isWhiteSpace c =
     (let n = (of_char c :: nat) in (9 \<le> n \<and> n \<le> 13) \<or> n = 32 \<or> n = 160)"

definition trim :: "string \<Rightarrow> string" where
  "trim s = rev (dropWhile isWhiteSpace (rev (dropWhile isWhiteSpace s)))"

definition isDigit :: "char \<Rightarrow> bool" where
  "isDigit c = (let n = (of_char c :: nat) in 48 \<le> n \<and> n \<le> 57)"

definition ordinalSuffix :: "string \<Rightarrow> bool" where
  "ordinalSuffix s =
     (take 2 s = ''st'' \<or> take 2 s = ''nd'' \<or> take 2 s = ''rd'' \<or> take 2 s = ''th'')"

text \<open>
  \<^verbatim>\<open>.replace(/(\d+)(st|nd|rd|th)/, '$1')\<close>: the pattern has no \<^verbatim>\<open>g\<close> flag, so only the
  leftmost match is replaced. A match starts at a digit whose maximal run of digits is
  followed by one of the four suffixes; the replacement keeps the digits.
\<close>

fun stripOrdinal :: "string \<Rightarrow> string" where
  "stripOrdinal [] = []"
| "stripOrdinal (c # cs) =
     (if isDigit c \<and> ordinalSuffix (dropWhile isDigit cs)
      then c # takeWhile isDigit cs @ drop 2 (dropWhile isDigit cs)
      else c # stripOrdinal cs)"

subsection \<open>\<^verbatim>\<open>Date\<close>\<close>

text \<open>
  The host of the process: \<open>dateParse\<close> is the engine's \<^verbatim>\<open>Date.parse\<close> on strings that are
  not in the ISO format (its grammar is left to the implementation by the language
  standard; \<open>None\<close> is \<^verbatim>\<open>NaN\<close>), and \<open>localTZA t\<close> is the offset in milliseconds of the
  host's time zone from UTC at the instant \<open>t\<close>.
\<close>

record host =
  dateParse :: "string \<Rightarrow> int option"
  localTZA :: "int \<Rightarrow> int"

text \<open>\<^verbatim>\<open>TimeClip\<close>: a time value is at most \<open>8.64e15\<close> in magnitude, or \<^verbatim>\<open>NaN\<close>.\<close>

definition timeClip :: "int \<Rightarrow> int option" where
  "timeClip t = (if \<bar>t\<bar> \<le> 8640000000000000 then Some t else None)"

definition newDate :: "host \<Rightarrow> string \<Rightarrow> int option" where
  "newDate h s = (case dateParse h s of None \<Rightarrow> None | Some t \<Rightarrow> timeClip t)"

text \<open>
  The proleptic Gregorian date of a day number (days since 1970-01-01), as
  \<open>(year, month, day)\<close> with the month counted from 0 as \<^verbatim>\<open>getMonth\<close> does.
\<close>

definition civilFromDays :: "int \<Rightarrow> int \<times> int \<times> int" where
  "civilFromDays z =
     (let z1 = z + 719468;
          era = z1 div 146097;
          doe = z1 mod 146097;
          yoe = (doe - doe div 1460 + doe div 36524 - doe div 146096) div 365;
          doy = doe - (365 * yoe + yoe div 4 - yoe div 100);
          mp = (5 * doy + 2) div 153;
          d = doy - (153 * mp + 2) div 5 + 1;
          m = (if mp < 10 then mp + 3 else mp - 9);
          y = yoe + era * 400 + (if m \<le> 2 then 1 else 0)
      in (y, m - 1, d))"

text \<open>The fields of a time value, as the language standard names them.\<close>

definition yearFromTime :: "int \<Rightarrow> int" where
  "yearFromTime t = fst (civilFromDays (t div 86400000))"

definition monthFromTime :: "int \<Rightarrow> int" where
  "monthFromTime t = fst (snd (civilFromDays (t div 86400000)))"

definition dateFromTime :: "int \<Rightarrow> int" where
  "dateFromTime t = snd (snd (civilFromDays (t div 86400000)))"

definition hourFromTime :: "int \<Rightarrow> int" where
  "hourFromTime t = (t div 3600000) mod 24"

definition minFromTime :: "int \<Rightarrow> int" where
  "minFromTime t = (t div 60000) mod 60"

definition secFromTime :: "int \<Rightarrow> int" where
  "secFromTime t = (t div 1000) mod 60"

definition localTime :: "host \<Rightarrow> int \<Rightarrow> int" where
  "localTime h t = t + localTZA h t"

text \<open>The getters read the local time of the host; on an invalid date they give \<^verbatim>\<open>NaN\<close>.\<close>

definition getFullYear :: "host \<Rightarrow> int option \<Rightarrow> int option" where
  "getFullYear h d = (case d of None \<Rightarrow> None | Some t \<Rightarrow> Some (yearFromTime (localTime h t)))"

definition getMonth :: "host \<Rightarrow> int option \<Rightarrow> int option" where
  "getMonth h d = (case d of None \<Rightarrow> None | Some t \<Rightarrow> Some (monthFromTime (localTime h t)))"

definition getDate :: "host \<Rightarrow> int option \<Rightarrow> int option" where
  "getDate h d = (case d of None \<Rightarrow> None | Some t \<Rightarrow> Some (dateFromTime (localTime h t)))"

definition getHours :: "host \<Rightarrow> int option \<Rightarrow> int option" where
  "getHours h d = (case d of None \<Rightarrow> None | Some t \<Rightarrow> Some (hourFromTime (localTime h t)))"

definition getMinutes :: "host \<Rightarrow> int option \<Rightarrow> int option" where
  "getMinutes h d = (case d of None \<Rightarrow> None | Some t \<Rightarrow> Some (minFromTime (localTime h t)))"

definition getSeconds :: "host \<Rightarrow> int option \<Rightarrow> int option" where
  "getSeconds h d = (case d of None \<Rightarrow> None | Some t \<Rightarrow> Some (secFromTime (localTime h t)))"

text \<open>A number that may be \<^verbatim>\<open>NaN\<close>, as a string.\<close>

definition numToString :: "int option \<Rightarrow> string" where
  "numToString x = (case x of None \<Rightarrow> ''NaN'' | Some i \<Rightarrow> numberToString i)"

subsection \<open>The conversion\<close>

text \<open>\<^verbatim>\<open>!estDateString\<close>: the falsy values among the JSON values.\<close>

fun falsy :: "json \<Rightarrow> bool" where
  "falsy JNull = True"
| "falsy (JBool b) = (\<not> b)"
| "falsy (JNum i) = (i = 0)"
| "falsy (JStr s) = (s = [])"
| "falsy (JArr xs) = False"
| "falsy (JObj ps) = False"

text \<open>The text rendered from \<^verbatim>\<open>istDate\<close>, the template literal of the \<^verbatim>\<open>return\<close>.\<close>

definition formatIST :: "host \<Rightarrow> int option \<Rightarrow> string" where
  "formatIST h istDate =
     (let day = padStart2 (numToString (getDate h istDate));
          month = padStart2 (numToString (case getMonth h istDate of None \<Rightarrow> None | Some m \<Rightarrow> Some (m + 1)));
          year = numToString (getFullYear h istDate);
          hours = getHours h istDate;
          minutes = padStart2 (numToString (getMinutes h istDate));
          seconds = padStart2 (numToString (getSeconds h istDate));
          ampm = (case hours of None \<Rightarrow> ''AM'' | Some hr \<Rightarrow> if hr \<ge> 12 then ''PM'' else ''AM'');
          hours12 = (case hours of None \<Rightarrow> None
                     | Some hr \<Rightarrow> Some (if hr mod 12 = 0 then 12 else hr mod 12))
      in day @ ''/'' @ month @ ''/'' @ year @ '', '' @ numToString hours12 @ '':'' @ minutes
         @ '':'' @ seconds @ '' '' @ ampm @ '' IST'')"

text \<open>
  The body of the \<^verbatim>\<open>try\<close>. A value that is not a string has no \<^verbatim>\<open>replace\<close> method: the
  call throws a \<^verbatim>\<open>TypeError\<close>.
\<close>

definition convertESTtoIST_try :: "host \<Rightarrow> json \<Rightarrow> js_error + string" where
  "convertESTtoIST_try h estDateString =
     (case estDateString of
        JStr s \<Rightarrow>
          (let dateStr = stripOrdinal (trim (replaceFirst '' EST'' [] s));
               estDate = newDate h (dateStr @ '' GMT-0500'')
           in case estDate of
                None \<Rightarrow> Inr ''Invalid Date''
              | Some t \<Rightarrow> Inr (formatIST h (timeClip (t + 37800000))))
      | _ \<Rightarrow> Inl TypeError)"

definition convertESTtoIST :: "host \<Rightarrow> json \<Rightarrow> string" where
  "convertESTtoIST h estDateString =
     (if falsy estDateString \<or> estDateString = JStr ''Unknown'' then ''Unknown''
      else case convertESTtoIST_try h estDateString of
             Inr s \<Rightarrow> s
           | Inl err \<Rightarrow> ''Invalid Date'')"

section \<open>\<^verbatim>\<open>getLatestTimestampForUser\<close> and \<^verbatim>\<open>createVoteEmbed\<close>\<close>

text \<open>
  \<^verbatim>\<open>Array.prototype.sort\<close> with a comparator. The language standard makes the sort
  stable, which fixes the result for a consistent comparator (both comparators here
  are differences of integers); it is modelled by insertion from the right, an element
  going before the first one it does not compare greater than.
\<close>

fun insertSorted :: "('a \<Rightarrow> 'a \<Rightarrow> int) \<Rightarrow> 'a \<Rightarrow> 'a list \<Rightarrow> 'a list" where
  "insertSorted cmp x [] = [x]"
| "insertSorted cmp x (y # ys) =
     (if cmp x y \<le> 0 then x # y # ys else y # insertSorted cmp x ys)"

fun arraySort :: "('a \<Rightarrow> 'a \<Rightarrow> int) \<Rightarrow> 'a list \<Rightarrow> 'a list" where
  "arraySort cmp [] = []"
| "arraySort cmp (x # xs) = insertSorted cmp x (arraySort cmp xs)"

text \<open>
  The body of \<^verbatim>\<open>getLatestTimestampForUser\<close> once \<^verbatim>\<open>timestamps.votes\<close> is an array: the
  filter, the test of the length, the sort and \<^verbatim>\<open>userVotes[0]\<close>. \<open>None\<close> is the \<^verbatim>\<open>null\<close>
  of the source.
\<close>

definition latestVoteOf :: "vote list \<Rightarrow> string \<Rightarrow> vote option" where
  "latestVoteOf vs nick =
     (let userVotes = filter (\<lambda>vote. voteNickname vote = nick) vs in
      if userVotes = [] then None
      else (case arraySort (\<lambda>a b. timestamp b - timestamp a) userVotes of
              [] \<Rightarrow> None
            | latest # others \<Rightarrow> Some latest))"

text \<open>
  \<^verbatim>\<open>timestamps.votes.filter(...)\<close> throws a \<^verbatim>\<open>TypeError\<close> when the payload has no
  \<^verbatim>\<open>votes\<close>.
\<close>

definition getLatestTimestampForUser :: "timestamp_data \<Rightarrow> string \<Rightarrow> js_error + vote option" where
  "getLatestTimestampForUser timestamps nick =
     (case votesOf timestamps of
        None \<Rightarrow> Inl TypeError
      | Some vs \<Rightarrow> Inr (latestVoteOf vs nick))"

text \<open>The embed handed to the transport (\<^verbatim>\<open>EmbedBuilder\<close>), as the record of its fields.\<close>

record embed =
  embedTitle :: string
  embedColor :: nat
  embedTimestamp :: int
  embedFooter :: string
  embedDescription :: string

definition newline :: string where
  "newline = [CHR 0x0A]"

text \<open>The three lines that one turn of the \<^verbatim>\<open>forEach\<close> appends to \<^verbatim>\<open>description\<close>.\<close>

definition voterLines :: "nat \<Rightarrow> voter \<Rightarrow> string \<Rightarrow> string" where
  "voterLines index voter lastVoteDate =
     ''**'' @ natToString (index + 1) @ ''.** '' @ nickname voter @ newline
     @ ''**Votes:** '' @ numberToString (votes voter) @ newline
     @ ''**Last Vote:** '' @ lastVoteDate @ newline @ newline"

text \<open>\<^verbatim>\<open>latestVote ? this.convertESTtoIST(latestVote.date) : 'Unknown'\<close>.\<close>

definition lastVoteDateOf :: "host \<Rightarrow> vote option \<Rightarrow> string" where
  "lastVoteDateOf h latestVote =
     (case latestVote of
        Some v \<Rightarrow> convertESTtoIST h (JStr (date v))
      | None \<Rightarrow> ''Unknown'')"

text \<open>
  \<^verbatim>\<open>sortedVoters.forEach((voter, index) => ...)\<close>, with the running \<^verbatim>\<open>index\<close> and
  \<^verbatim>\<open>description\<close>.
\<close>

fun forEachVoter :: "host \<Rightarrow> timestamp_data \<Rightarrow> nat \<Rightarrow> voter list \<Rightarrow> string \<Rightarrow> js_error + string" where
  "forEachVoter h timestampData index [] description = Inr description"
| "forEachVoter h timestampData index (voter # rest) description =
     (case getLatestTimestampForUser timestampData (nickname voter) of
        Inl err \<Rightarrow> Inl err
      | Inr latestVote \<Rightarrow>
          forEachVoter h timestampData (index + 1) rest
            (description @ voterLines index voter (lastVoteDateOf h latestVote)))"

text \<open>\<^verbatim>\<open>voteData.voters.sort((a, b) => parseInt(b.votes) - parseInt(a.votes))\<close>.\<close>

definition sortedVotersOf :: "voter list \<Rightarrow> voter list" where
  "sortedVotersOf vs = arraySort (\<lambda>a b. votes b - votes a) vs"

text \<open>
  The records that the \<^verbatim>\<open>forEach\<close> renders, in its order: for each sorted voter the
  nickname, the votes and the \<^verbatim>\<open>lastVoteDate\<close> of that turn.
\<close>

definition leaderboardRecords :: "host \<Rightarrow> voter list \<Rightarrow> vote list \<Rightarrow> (string \<times> int \<times> string) list" where
  "leaderboardRecords h vs es =
     map (\<lambda>voter. (nickname voter, votes voter, lastVoteDateOf h (latestVoteOf es (nickname voter))))
       (sortedVotersOf vs)"

text \<open>\<^verbatim>\<open>voteData.name || 'Minecraft Server'\<close>.\<close>

definition titleOf :: "vote_data \<Rightarrow> string" where
  "titleOf voteData =
     (case name voteData of
        None \<Rightarrow> ''Minecraft Server''
      | Some n \<Rightarrow> if n = [] then ''Minecraft Server'' else n)"

text \<open>
  The setters of \<^verbatim>\<open>EmbedBuilder\<close> validate their argument and throw when it is refused:
  a title of more than 256 code units, a description of more than 4096. (They refuse an
  empty text too; neither text is empty here: the title has its default, the description
  is the placeholder or at least one block.)
\<close>

definition titleAccepted :: "string \<Rightarrow> bool" where
  "titleAccepted s = (length s \<le> 256)"

definition descriptionAccepted :: "string \<Rightarrow> bool" where
  "descriptionAccepted s = (length s \<le> 4096)"

text \<open>
  \<open>Inr None\<close> is the \<^verbatim>\<open>null\<close> of the first line; \<open>now\<close> is the clock read by
  \<^verbatim>\<open>setTimestamp()\<close>. \<^verbatim>\<open>setTitle\<close> runs before the loop and \<^verbatim>\<open>setDescription\<close> after it.
\<close>

definition createVoteEmbed ::
  "host \<Rightarrow> int \<Rightarrow> vote_data option \<Rightarrow> timestamp_data option \<Rightarrow> js_error + embed option" where
  "createVoteEmbed h now voteData timestampData =
     (case voteData of
        None \<Rightarrow> Inr None
      | Some vd \<Rightarrow>
          (case voters vd of
             None \<Rightarrow> Inr None
           | Some vs \<Rightarrow>
               (case timestampData of
                  None \<Rightarrow> Inr None
                | Some td \<Rightarrow>
                    (let sortedVoters = sortedVotersOf vs in
                     if \<not> titleAccepted (titleOf vd) then Inl ValidationError
                     else
                       case (if sortedVoters = [] then Inr ''No votes this month yet!''
                             else forEachVoter h td 0 sortedVoters []) of
                         Inl err \<Rightarrow> Inl err
                       | Inr description \<Rightarrow>
                           if \<not> descriptionAccepted description then Inl ValidationError
                           else
                             Inr (Some \<lparr>embedTitle = titleOf vd, embedColor = 44678,
                                        embedTimestamp = now, embedFooter = ''Vote Tracker Bot'',
                                        embedDescription = description\<rparr>)))))"

subsection \<open>The shaping as the specification words it\<close>

text \<open>
  The specification's Record Shaper, to be compared with the code above: for each
  standing, the event with the same nickname and the greatest ordinal, the first seen
  among equals, or \<^verbatim>\<open>Unknown\<close> when there is none; the date converted; the result sorted
  by votes, highest first, by a stable sort (the library's \<open>sort_key\<close>).
\<close>

definition specLatestEvent :: "vote list \<Rightarrow> string \<Rightarrow> vote option" where
  "specLatestEvent es n =
     (let matching = filter (\<lambda>e. voteNickname e = n) es
      in List.find (\<lambda>e. list_all (\<lambda>x. timestamp x \<le> timestamp e) matching) matching)"

definition specShape :: "host \<Rightarrow> voter list \<Rightarrow> vote list \<Rightarrow> (string \<times> int \<times> string) list" where
  "specShape h vs es =
     sort_key (\<lambda>r. - fst (snd r))
       (map (\<lambda>v. (nickname v, votes v,
                   case specLatestEvent es (nickname v) of
                     None \<Rightarrow> ''Unknown''
                   | Some e \<Rightarrow> convertESTtoIST h (JStr (date e))))
            vs)"

section \<open>\<^verbatim>\<open>updateVoteMessage\<close>\<close>

text \<open>The \<^verbatim>\<open>VoteData\<close> document of the schema, and the collection keyed by \<^verbatim>\<open>serverId\<close>.\<close>

record sync_state =
  serverId :: string
  lastUpdateHash :: string
  lastMessageId :: "string option"
  createdAt :: int
  updatedAt :: int

type_synonym collection = "string \<rightharpoonup> sync_state"

text \<open>\<^verbatim>\<open>new VoteData({ serverId })\<close> with the defaults of the schema.\<close>

definition newVoteData :: "string \<Rightarrow> int \<Rightarrow> sync_state" where
  "newVoteData key now =
     \<lparr>serverId = key, lastUpdateHash = [], lastMessageId = None, createdAt = now, updatedAt = now\<rparr>"

text \<open>
  What the collaborators answer during one cycle. A promise of the HTTP client either
  resolves with a body or rejects; \<^verbatim>\<open>channel.messages.fetch\<close> resolves, or rejects because
  the message is unknown, or rejects for another reason (the source has one bare
  \<^verbatim>\<open>catch\<close> for both).
\<close>

datatype 'a response = Resolved 'a | Rejected

datatype channel_result = ChannelResolved | ChannelNull | ChannelRejected

datatype message_fetch = MessageFound | MessageUnknown | MessageFetchError

record env =
  hostOf :: host
  clock :: int
  serverKey :: string
  channelFetch :: channel_result
  votersResponse :: "vote_data response"
  votesResponse :: "timestamp_data response"
  findOneOk :: bool
  messageFetch :: message_fetch
  editOk :: bool
  sendResult :: "string option"
  saveOk :: bool

text \<open>
  What a cycle leaves behind: the collection, the calls that changed the channel, and
  the path by which the function returned (its last console line).
\<close>

datatype action = Sent "embed option" string | Edited string embed

datatype outcome =
    ChannelNotFound
  | FetchFailed
  | NoChangeLive
  | NoChangeNoMessage
  | Reposted
  | EmbedFailed
  | UpdatedExisting
  | SentReplacement
  | SentFirst
  | Caught js_error

record result =
  store :: collection
  actions :: "action list"
  outcome :: outcome

text \<open>\<^verbatim>\<open>fetchVoteCount\<close> and \<^verbatim>\<open>fetchVoteTimestamps\<close>: a rejected request is caught and gives \<^verbatim>\<open>null\<close>.\<close>

definition fetchVoteCount :: "vote_data response \<Rightarrow> vote_data option" where
  "fetchVoteCount r = (case r of Resolved d \<Rightarrow> Some d | Rejected \<Rightarrow> None)"

definition fetchVoteTimestamps :: "timestamp_data response \<Rightarrow> timestamp_data option" where
  "fetchVoteTimestamps r = (case r of Resolved d \<Rightarrow> Some d | Rejected \<Rightarrow> None)"

text \<open>The truth value of \<^verbatim>\<open>storedData.lastMessageId\<close>: neither \<^verbatim>\<open>null\<close> nor empty.\<close>

definition hasMessageId :: "sync_state \<Rightarrow> bool" where
  "hasMessageId s = (case lastMessageId s of None \<Rightarrow> False | Some m \<Rightarrow> m \<noteq> [])"

text \<open>
  \<^verbatim>\<open>storedData.save()\<close>: the document reaches the collection only when the save resolves;
  a rejected save reaches the outer \<^verbatim>\<open>catch\<close>, after the calls already made on the channel.
\<close>

definition saveStored :: "env \<Rightarrow> collection \<Rightarrow> sync_state \<Rightarrow> action list \<Rightarrow> outcome \<Rightarrow> result" where
  "saveStored e db storedData done path =
     (if saveOk e then \<lparr>store = db(serverId storedData \<mapsto> storedData), actions = done, outcome = path\<rparr>
      else \<lparr>store = db, actions = done, outcome = Caught PersistenceError\<rparr>)"

text \<open>
  \<^verbatim>\<open>channel.send({ embeds: [embed] })\<close> followed by the update of the document; a rejected
  send reaches the outer \<^verbatim>\<open>catch\<close>.
\<close>

definition sendAndSave ::
  "env \<Rightarrow> collection \<Rightarrow> sync_state \<Rightarrow> string \<Rightarrow> embed option \<Rightarrow> outcome \<Rightarrow> result" where
  "sendAndSave e db storedData newHash emb path =
     (case sendResult e of
        None \<Rightarrow> \<lparr>store = db, actions = [], outcome = Caught TransportError\<rparr>
      | Some newId \<Rightarrow>
          saveStored e db
            (storedData\<lparr>lastMessageId := Some newId, lastUpdateHash := newHash, updatedAt := clock e\<rparr>)
            [Sent emb newId] path)"

text \<open>The branch of an unchanged hash (the first \<^verbatim>\<open>if\<close> after the lookup).\<close>

definition unchangedBranch ::
  "env \<Rightarrow> collection \<Rightarrow> sync_state \<Rightarrow> string \<Rightarrow> vote_data \<Rightarrow> timestamp_data \<Rightarrow> result" where
  "unchangedBranch e db storedData newHash voteData timestampData =
     (if hasMessageId storedData then
        (case messageFetch e of
           MessageFound \<Rightarrow> \<lparr>store = db, actions = [], outcome = NoChangeLive\<rparr>
         | _ \<Rightarrow>
             (case createVoteEmbed (hostOf e) (clock e) (Some voteData) (Some timestampData) of
                Inl err \<Rightarrow> \<lparr>store = db, actions = [], outcome = Caught err\<rparr>
              | Inr emb \<Rightarrow> sendAndSave e db storedData newHash emb Reposted))
      else \<lparr>store = db, actions = [], outcome = NoChangeNoMessage\<rparr>)"

text \<open>
  The branch of a changed hash, from \<^verbatim>\<open>createVoteEmbed\<close> to the save. The recorded id counts
  when it is neither \<^verbatim>\<open>null\<close> nor empty; the fetch of the message and its edit share one
  \<^verbatim>\<open>try\<close>, whose \<^verbatim>\<open>catch\<close> sends a new message.
\<close>

definition changedBranch ::
  "env \<Rightarrow> collection \<Rightarrow> sync_state \<Rightarrow> string \<Rightarrow> vote_data \<Rightarrow> timestamp_data \<Rightarrow> result" where
  "changedBranch e db storedData newHash voteData timestampData =
     (case createVoteEmbed (hostOf e) (clock e) (Some voteData) (Some timestampData) of
        Inl err \<Rightarrow> \<lparr>store = db, actions = [], outcome = Caught err\<rparr>
      | Inr None \<Rightarrow> \<lparr>store = db, actions = [], outcome = EmbedFailed\<rparr>
      | Inr (Some emb) \<Rightarrow>
          (case lastMessageId storedData of
             None \<Rightarrow> sendAndSave e db storedData newHash (Some emb) SentFirst
           | Some mid \<Rightarrow>
               if mid = [] then sendAndSave e db storedData newHash (Some emb) SentFirst
               else if messageFetch e = MessageFound \<and> editOk e then
                 saveStored e db (storedData\<lparr>lastUpdateHash := newHash, updatedAt := clock e\<rparr>)
                   [Edited mid emb] UpdatedExisting
               else sendAndSave e db storedData newHash (Some emb) SentReplacement))"

definition updateVoteMessage :: "env \<Rightarrow> collection \<Rightarrow> result" where
  "updateVoteMessage e db =
     (case channelFetch e of
        ChannelRejected \<Rightarrow> \<lparr>store = db, actions = [], outcome = Caught TransportError\<rparr>
      | ChannelNull \<Rightarrow> \<lparr>store = db, actions = [], outcome = ChannelNotFound\<rparr>
      | ChannelResolved \<Rightarrow>
          (case fetchVoteCount (votersResponse e) of
             None \<Rightarrow> \<lparr>store = db, actions = [], outcome = FetchFailed\<rparr>
           | Some voteData \<Rightarrow>
               (case fetchVoteTimestamps (votesResponse e) of
                  None \<Rightarrow> \<lparr>store = db, actions = [], outcome = FetchFailed\<rparr>
                | Some timestampData \<Rightarrow>
                    (let newHash = generateDataHash (Some voteData) (Some timestampData) in
                     if \<not> findOneOk e then \<lparr>store = db, actions = [], outcome = Caught PersistenceError\<rparr>
                     else
                       (let storedData = (case db (serverKey e) of
                                            None \<Rightarrow> newVoteData (serverKey e) (clock e)
                                          | Some row \<Rightarrow> row)
                        in if lastUpdateHash storedData = newHash
                           then unchangedBranch e db storedData newHash voteData timestampData
                           else changedBranch e db storedData newHash voteData timestampData)))))"

section \<open>Sample inputs\<close>

text \<open>
  The engine's parse (Node, V8) of the two date texts the samples read. 02:27 in the
  morning of 23 July 2025 at five hours behind UTC is 07:27 UTC, 1753255620 seconds
  after the epoch. On \<^verbatim>\<open>garbled GMT-0500\<close> the engine's lenient parser skips the words
  before the first number and reads \<^verbatim>\<open>0500\<close> as the year 500: the answer is midnight of
  1 January 500, not \<^verbatim>\<open>NaN\<close>. On \<^verbatim>\<open>garbled\<close> alone, a text without a number, the answer is
  \<^verbatim>\<open>NaN\<close>. No theorem reads the table on another text.
\<close>

definition sampleDateParse :: "string \<Rightarrow> int option" where
  "sampleDateParse s =
     (if s = ''July 23, 2025 02:27 AM GMT-0500'' then Some 1753255620000
      else if s = ''garbled GMT-0500'' then Some (- 46388678400000)
      else if s = ''garbled'' then None
      else None)"

text \<open>A host whose time zone is UTC, and one whose time zone is Asia/Kolkata (UTC+5:30).\<close>

definition hostUTC :: host where
  "hostUTC = \<lparr>dateParse = sampleDateParse, localTZA = (\<lambda>t. 0)\<rparr>"

definition hostKolkata :: host where
  "hostKolkata = \<lparr>dateParse = sampleDateParse, localTZA = (\<lambda>t. 19800000)\<rparr>"

definition voterA :: voter where
  "voterA = \<lparr>nickname = ''A'', votes = 3, voterRest = []\<rparr>"

definition voterB :: voter where
  "voterB = \<lparr>nickname = ''B'', votes = 5, voterRest = []\<rparr>"

definition voterC :: voter where
  "voterC = \<lparr>nickname = ''C'', votes = 5, voterRest = []\<rparr>"

definition voteA :: vote where
  "voteA = \<lparr>date = ''July 23rd, 2025 02:27 AM EST'', timestamp = 1753255620,
            voteNickname = ''A'', voteRest = []\<rparr>"

definition voteAOld :: vote where
  "voteAOld = \<lparr>date = ''garbled'', timestamp = 1753000000, voteNickname = ''A'', voteRest = []\<rparr>"

definition standingsAB :: vote_data where
  "standingsAB = \<lparr>name = None, voters = Some [voterA, voterB]\<rparr>"

definition standingsBA :: vote_data where
  "standingsBA = \<lparr>name = None, voters = Some [voterB, voterA]\<rparr>"

definition standingsABC :: vote_data where
  "standingsABC = \<lparr>name = None, voters = Some [voterA, voterB, voterC]\<rparr>"

text \<open>A board of one voter whose nickname has 4097 characters.\<close>

definition longNickname :: string where
  "longNickname = replicate 4097 (CHR ''x'')"

definition voterLong :: voter where
  "voterLong = \<lparr>nickname = longNickname, votes = 1, voterRest = []\<rparr>"

definition standingsLong :: vote_data where
  "standingsLong = \<lparr>name = None, voters = Some [voterLong]\<rparr>"

definition standingsNoVoters :: vote_data where
  "standingsNoVoters = \<lparr>name = None, voters = None\<rparr>"

definition standingsEmpty :: vote_data where
  "standingsEmpty = \<lparr>name = None, voters = Some []\<rparr>"

definition eventsNone :: timestamp_data where
  "eventsNone = \<lparr>votesOf = Some []\<rparr>"

definition eventsA :: timestamp_data where
  "eventsA = \<lparr>votesOf = Some [voteAOld, voteA]\<rparr>"

text \<open>An events body that is not what the provider documents: it has no \<^verbatim>\<open>votes\<close>.\<close>

definition eventsMalformed :: timestamp_data where
  "eventsMalformed = \<lparr>votesOf = None\<rparr>"

text \<open>A cycle in which every collaborator answers, and the row of an earlier cycle.\<close>

definition sampleEnv :: env where
  "sampleEnv =
     \<lparr>hostOf = hostUTC, clock = 1753300000000, serverKey = ''srv'',
      channelFetch = ChannelResolved, votersResponse = Resolved standingsAB,
      votesResponse = Resolved eventsNone, findOneOk = True, messageFetch = MessageFound,
      editOk = True, sendResult = Some ''m2'', saveOk = True\<rparr>"

definition storedRow :: sync_state where
  "storedRow =
     \<lparr>serverId = ''srv'', lastUpdateHash = generateDataHash (Some standingsAB) (Some eventsNone),
      lastMessageId = Some ''m1'', createdAt = 1753200000000, updatedAt = 1753200000000\<rparr>"

definition staleRow :: sync_state where
  "staleRow = storedRow\<lparr>lastUpdateHash := ''0''\<rparr>"


definition staleDb :: collection where
  "staleDb = Map.empty(''srv'' \<mapsto> staleRow)"

text \<open>The embed rendered from \<open>standingsAB\<close> and \<open>eventsNone\<close> at the clock of \<open>sampleEnv\<close>.\<close>

definition sampleEmbed :: embed where
  "sampleEmbed =
     \<lparr>embedTitle = ''Minecraft Server'', embedColor = 44678, embedTimestamp = 1753300000000,
      embedFooter = ''Vote Tracker Bot'',
      embedDescription =
        ''**1.** B'' @ newline @ ''**Votes:** 5'' @ newline @ ''**Last Vote:** Unknown''
        @ newline @ newline
        @ ''**2.** A'' @ newline @ ''**Votes:** 3'' @ newline @ ''**Last Vote:** Unknown''
        @ newline @ newline\<rparr>"

text \<open>
  The embed rendered from \<open>standingsABC\<close> and \<open>eventsA\<close> on the host in UTC, and the embed
  of an empty board.
\<close>

definition sampleEmbedABC :: embed where
  "sampleEmbedABC =
     \<lparr>embedTitle = ''Minecraft Server'', embedColor = 44678, embedTimestamp = 1753300000000,
      embedFooter = ''Vote Tracker Bot'',
      embedDescription =
        ''**1.** B'' @ newline @ ''**Votes:** 5'' @ newline @ ''**Last Vote:** Unknown''
        @ newline @ newline
        @ ''**2.** C'' @ newline @ ''**Votes:** 5'' @ newline @ ''**Last Vote:** Unknown''
        @ newline @ newline
        @ ''**3.** A'' @ newline @ ''**Votes:** 3'' @ newline
        @ ''**Last Vote:** 23/07/2025, 5:57:00 PM IST'' @ newline @ newline\<rparr>"

definition emptyBoardEmbed :: embed where
  "emptyBoardEmbed =
     \<lparr>embedTitle = ''Minecraft Server'', embedColor = 44678, embedTimestamp = 1753300000000,
      embedFooter = ''Vote Tracker Bot'', embedDescription = ''No votes this month yet!''\<rparr>"




definition noVotersEnv :: env where
  "noVotersEnv = sampleEnv\<lparr>votersResponse := Resolved standingsNoVoters\<rparr>"


section \<open>Evaluation of the samples\<close>

lemmas string_eval = numberToString_def natToString.simps digitChar_def

lemmas stringify_eval = dataString_def votersOrEmpty_def votesOrEmpty_def voterJson_def
  voteJson_def quoteJSONString_def quoteChar_def hexDigit_def

lemmas hash_eval = generateDataHash_def hashStep_def shiftLeft5_def toInt32_def

lemmas format_eval = formatIST_def getDate_def getMonth_def getFullYear_def getHours_def
  getMinutes_def getSeconds_def localTime_def yearFromTime_def monthFromTime_def
  dateFromTime_def hourFromTime_def minFromTime_def secFromTime_def numToString_def
  padStart2_def

lemma hash_standingsAB: "generateDataHash (Some standingsAB) (Some eventsNone) = ''1098643565''"
  by (simp add: hash_eval stringify_eval string_eval standingsAB_def eventsNone_def
      voterA_def voterB_def)

lemma hash_standingsBA: "generateDataHash (Some standingsBA) (Some eventsNone) = ''-718215409''"
  by (simp add: hash_eval stringify_eval string_eval standingsBA_def eventsNone_def
      voterA_def voterB_def)

lemma civil_sample: "civilFromDays 20292 = (2025, 6, 23)"
  unfolding civilFromDays_def Let_def by simp

lemma format_sample_UTC:
  "formatIST hostUTC (Some 1753293420000) = ''23/07/2025, 5:57:00 PM IST''"
  by (simp add: format_eval string_eval hostUTC_def civil_sample)

lemma format_sample_Kolkata:
  "formatIST hostKolkata (Some 1753293420000) = ''23/07/2025, 11:27:00 PM IST''"
  by (simp add: format_eval string_eval hostKolkata_def civil_sample)

lemma dateParse_hostUTC: "dateParse hostUTC = sampleDateParse"
  by (simp add: hostUTC_def)

lemma dateParse_hostKolkata: "dateParse hostKolkata = sampleDateParse"
  by (simp add: hostKolkata_def)

lemma convert_sample:
  assumes "dateParse h = sampleDateParse"
  shows "convertESTtoIST h (JStr ''July 23rd, 2025 02:27 AM EST'')
         = formatIST h (Some 1753293420000)"
  using assms
  by (simp add: convertESTtoIST_def convertESTtoIST_try_def trim_def isWhiteSpace_def
      isDigit_def ordinalSuffix_def newDate_def sampleDateParse_def timeClip_def)

lemma civil_garbled: "civilFromDays (- 536906) = (500, 0, 1)"
  unfolding civilFromDays_def Let_def by simp

lemma format_garbled_UTC:
  "formatIST hostUTC (Some (- 46388640600000)) = ''01/01/500, 10:30:00 AM IST''"
  by (simp add: format_eval string_eval hostUTC_def civil_garbled)

lemma parse_garbled:
  assumes "dateParse h = sampleDateParse"
  shows "newDate h (''garbled'' @ '' GMT-0500'') = Some (- 46388678400000)"
  using assms by (simp add: newDate_def sampleDateParse_def timeClip_def)

lemma convert_garbled:
  assumes "dateParse h = sampleDateParse"
  shows "convertESTtoIST h (JStr ''garbled'') = formatIST h (Some (- 46388640600000))"
  using assms
  by (simp add: convertESTtoIST_def convertESTtoIST_try_def trim_def isWhiteSpace_def
      isDigit_def ordinalSuffix_def newDate_def sampleDateParse_def timeClip_def)

lemma sorted_AB: "sortedVotersOf [voterA, voterB] = [voterB, voterA]"
  by (simp add: sortedVotersOf_def voterA_def voterB_def)

lemma sorted_BA: "sortedVotersOf [voterB, voterA] = [voterB, voterA]"
  by (simp add: sortedVotersOf_def voterA_def voterB_def)

lemma latest_sample_A: "latestVoteOf [voteAOld, voteA] ''A'' = Some voteA"
  by (simp add: latestVoteOf_def voteA_def voteAOld_def)

lemma latest_sample_B: "latestVoteOf [voteAOld, voteA] ''B'' = None"
  by (simp add: latestVoteOf_def voteA_def voteAOld_def)

lemma sorted_ABC: "sortedVotersOf [voterA, voterB, voterC] = [voterB, voterC, voterA]"
  by (simp add: sortedVotersOf_def voterA_def voterB_def voterC_def)

lemma convert_voteA: "convertESTtoIST hostUTC (JStr (date voteA)) = ''23/07/2025, 5:57:00 PM IST''"
proof -
  have "date voteA = ''July 23rd, 2025 02:27 AM EST''" by (simp add: voteA_def)
  then show ?thesis
    by (simp add: convert_sample[OF dateParse_hostUTC] format_sample_UTC)
qed

lemma specLatest_sample_A: "specLatestEvent [voteAOld, voteA] ''A'' = Some voteA"
  by (simp add: specLatestEvent_def voteA_def voteAOld_def)

lemma specLatest_sample_other:
  "specLatestEvent [voteAOld, voteA] ''B'' = None" "specLatestEvent [voteAOld, voteA] ''C'' = None"
  by (simp_all add: specLatestEvent_def voteA_def voteAOld_def)

lemma specShape_sample:
  "specShape hostUTC [voterA, voterB, voterC] [voteAOld, voteA]
   = [(''B'', 5, ''Unknown''), (''C'', 5, ''Unknown''), (''A'', 3, ''23/07/2025, 5:57:00 PM IST'')]"
proof -
  have "nickname voterA = ''A''" "nickname voterB = ''B''" "nickname voterC = ''C''"
    "votes voterA = 3" "votes voterB = 5" "votes voterC = 5"
    by (simp_all add: voterA_def voterB_def voterC_def)
  then show ?thesis
    by (simp add: specShape_def specLatest_sample_A specLatest_sample_other convert_voteA)
qed

lemma body_sample_ABC:
  "concat (map (\<lambda>(k, nick, count, lastVote).
                  ''**'' @ natToString (k + 1) @ ''.** '' @ nick @ newline
                  @ ''**Votes:** '' @ numberToString count @ newline
                  @ ''**Last Vote:** '' @ lastVote @ newline @ newline)
               (enumerate 0 [(''B'', 5, ''Unknown''), (''C'', 5, ''Unknown''),
                             (''A'', 3, ''23/07/2025, 5:57:00 PM IST'')]))
   = embedDescription sampleEmbedABC"
  by (simp add: string_eval sampleEmbedABC_def)

lemma accepted_samples:
  "titleAccepted ''Minecraft Server''" "descriptionAccepted (embedDescription sampleEmbedABC)"
  "descriptionAccepted (embedDescription sampleEmbed)" "descriptionAccepted ''No votes this month yet!''"
  by (simp_all add: titleAccepted_def descriptionAccepted_def sampleEmbedABC_def sampleEmbed_def
      newline_def)

lemma hash_no_voters:
  "generateDataHash (Some standingsNoVoters) (Some eventsNone) = ''814497316''"
  by (simp add: hash_eval stringify_eval string_eval standingsNoVoters_def eventsNone_def)


lemma embed_sample:
  "createVoteEmbed hostUTC 1753300000000 (Some standingsAB) (Some eventsNone) = Inr (Some sampleEmbed)"
proof -
  have v: "voters standingsAB = Some [voterA, voterB]" "name standingsAB = None"
    by (simp_all add: standingsAB_def)
  have l: "latestVoteOf [] n = None" for n by (simp add: latestVoteOf_def)
  have f: "forEachVoter hostUTC eventsNone 0 [voterB, voterA] [] = Inr (embedDescription sampleEmbed)"
    by (simp add: eventsNone_def getLatestTimestampForUser_def l lastVoteDateOf_def voterLines_def
        voterA_def voterB_def string_eval sampleEmbed_def)
  show ?thesis
    using accepted_samples(1,3)
    by (simp add: createVoteEmbed_def v sorted_AB f titleOf_def del: forEachVoter.simps)
       (simp add: sampleEmbed_def)
qed

section \<open>Lemmas on the hash, the sort and the rendering\<close>

lemma natToString_not_Nil: "natToString n \<noteq> []"
  by (subst natToString.simps) simp

lemma numberToString_not_Nil: "numberToString i \<noteq> []"
  by (simp add: numberToString_def natToString_not_Nil)

lemma toInt32_range: "- 2147483648 \<le> toInt32 x \<and> toInt32 x < 2147483648"
proof -
  have "0 \<le> (x + 2147483648) mod 4294967296"
    and "(x + 2147483648) mod 4294967296 < 4294967296"
    by simp_all
  then show ?thesis unfolding toInt32_def by linarith
qed

lemma hashLoop_range:
  "- 2147483648 \<le> h \<and> h < 2147483648 \<Longrightarrow>
   - 2147483648 \<le> hashLoop h s \<and> hashLoop h s < 2147483648"
  by (induction s arbitrary: h) (simp_all add: hashStep_def toInt32_range)

lemma generateDataHash_not_Nil: "generateDataHash voteData timestampData \<noteq> []"
  by (simp add: generateDataHash_def numberToString_not_Nil)

lemma insertSorted_not_Nil: "insertSorted cmp x ys \<noteq> []"
  by (cases ys) simp_all

lemma arraySort_Nil_iff: "arraySort cmp xs = [] \<longleftrightarrow> xs = []"
  by (cases xs) (simp_all add: insertSorted_not_Nil)

text \<open>
  With the difference of an integer key as comparator, the sort is the library's stable
  insertion sort on the negated key.
\<close>

lemma insertSorted_insort_key:
  "insertSorted (\<lambda>a b. f b - f a) x ys = insort_key (\<lambda>v. - f v) x ys"
  for f :: "'a \<Rightarrow> int"
  by (induction ys) simp_all

lemma arraySort_sort_key:
  "arraySort (\<lambda>a b. f b - f a) xs = sort_key (\<lambda>v. - f v) xs"
  for f :: "'a \<Rightarrow> int"
  by (induction xs) (simp_all add: insertSorted_insort_key)

lemma arraySort_descending:
  "sorted_wrt (\<lambda>a b. f a \<ge> f b) (arraySort (\<lambda>a b. f b - f a) xs)"
  for f :: "'a \<Rightarrow> int"
proof -
  have "sorted (map (\<lambda>v. - f v) (sort_key (\<lambda>v. - f v) xs))"
    by (rule sorted_sort_key)
  then show ?thesis by (simp add: arraySort_sort_key sorted_map)
qed

lemma arraySort_stable:
  "filter (\<lambda>v. f v = k) (arraySort (\<lambda>a b. f b - f a) xs) = filter (\<lambda>v. f v = k) xs"
  for f :: "'a \<Rightarrow> int"
  using sort_key_stable[of "\<lambda>v. - f v" "- k" xs] by (simp add: arraySort_sort_key)

lemma set_arraySort: "set (arraySort (\<lambda>a b. f b - f a) xs) = set xs"
  for f :: "'a \<Rightarrow> int"
  by (simp add: arraySort_sort_key)

lemma latestVoteOf_None:
  "latestVoteOf es n = None \<longleftrightarrow> (\<forall>e \<in> set es. voteNickname e \<noteq> n)"
proof -
  have "arraySort (\<lambda>a b. timestamp b - timestamp a) (filter (\<lambda>vote. voteNickname vote = n) es) \<noteq> []"
    if "filter (\<lambda>vote. voteNickname vote = n) es \<noteq> []"
    using that by (simp add: arraySort_Nil_iff)
  then show ?thesis
    by (auto simp: latestVoteOf_def Let_def filter_empty_conv split: list.splits)
qed

lemma latestVoteOf_Some:
  assumes "latestVoteOf es n = Some e"
  shows "e \<in> set es \<and> voteNickname e = n
       \<and> (\<forall>e' \<in> set es. voteNickname e' = n \<longrightarrow> timestamp e' \<le> timestamp e)
       \<and> (\<exists>later. filter (\<lambda>x. voteNickname x = n \<and> timestamp x = timestamp e) es = e # later)"
proof -
  define us where "us = filter (\<lambda>vote. voteNickname vote = n) es"
  define ss where "ss = arraySort (\<lambda>a b. timestamp b - timestamp a) us"
  obtain others where ss: "ss = e # others"
    using assms unfolding latestVoteOf_def Let_def us_def[symmetric] ss_def[symmetric]
    by (auto split: if_splits list.splits)
  have set: "set ss = set us" unfolding ss_def by (rule set_arraySort)
  have e_in: "e \<in> set us" using ss set by auto
  have desc: "sorted_wrt (\<lambda>a b. timestamp a \<ge> timestamp b) ss"
    unfolding ss_def by (rule arraySort_descending)
  have max: "\<forall>e' \<in> set us. timestamp e' \<le> timestamp e"
    using desc ss set by auto
  have "filter (\<lambda>v. timestamp v = timestamp e) ss = filter (\<lambda>v. timestamp v = timestamp e) us"
    unfolding ss_def by (rule arraySort_stable)
  then have "filter (\<lambda>v. timestamp v = timestamp e) us
             = e # filter (\<lambda>v. timestamp v = timestamp e) others"
    using ss by simp
  then have first:
    "\<exists>later. filter (\<lambda>x. voteNickname x = n \<and> timestamp x = timestamp e) es = e # later"
    unfolding us_def by (simp add: conj_commute)
  show ?thesis using e_in max first unfolding us_def by auto
qed

lemma enumerate_map: "enumerate n (map f xs) = map (\<lambda>(k, x). (k, f x)) (enumerate n xs)"
  by (induction xs arbitrary: n) simp_all

text \<open>The loop never throws once the events payload has its array; its result in closed form.\<close>

lemma forEachVoter_closed:
  assumes "votesOf td = Some es"
  shows "forEachVoter h td i vs acc =
         Inr (acc @ concat (map (\<lambda>(k, v). voterLines k v (lastVoteDateOf h (latestVoteOf es (nickname v))))
                              (enumerate i vs)))"
  using assms
  by (induction vs arbitrary: i acc) (simp_all add: getLatestTimestampForUser_def)

text \<open>The result of \<^verbatim>\<open>createVoteEmbed\<close> on two bodies, case by case.\<close>

lemma createVoteEmbed_cases:
  "createVoteEmbed h now (Some vd) (Some td) =
     (case voters vd of
        None \<Rightarrow> Inr None
      | Some vs \<Rightarrow>
          if \<not> titleAccepted (titleOf vd) then Inl ValidationError
          else if vs = [] then
            Inr (Some \<lparr>embedTitle = titleOf vd, embedColor = 44678, embedTimestamp = now,
                       embedFooter = ''Vote Tracker Bot'',
                       embedDescription = ''No votes this month yet!''\<rparr>)
          else
            (case votesOf td of
               None \<Rightarrow> Inl TypeError
             | Some es \<Rightarrow>
                 if \<not> descriptionAccepted
                        (concat (map (\<lambda>(k, v). voterLines k v (lastVoteDateOf h (latestVoteOf es (nickname v))))
                                     (enumerate 0 (sortedVotersOf vs))))
                 then Inl ValidationError
                 else
                   Inr (Some \<lparr>embedTitle = titleOf vd, embedColor = 44678, embedTimestamp = now,
                              embedFooter = ''Vote Tracker Bot'',
                              embedDescription =
                                concat (map (\<lambda>(k, v). voterLines k v (lastVoteDateOf h (latestVoteOf es (nickname v))))
                                            (enumerate 0 (sortedVotersOf vs)))\<rparr>)))"
proof (cases "voters vd")
  case None
  then show ?thesis by (simp add: createVoteEmbed_def)
next
  case (Some vs)
  have s: "sortedVotersOf vs = [] \<longleftrightarrow> vs = []"
    by (simp add: sortedVotersOf_def arraySort_Nil_iff)
  have p: "descriptionAccepted ''No votes this month yet!''"
    by (simp add: descriptionAccepted_def)
  show ?thesis
  proof (cases "votesOf td")
    case None
    have "forEachVoter h td 0 (sortedVotersOf vs) [] = Inl TypeError" if ne: "vs \<noteq> []"
    proof -
      obtain x xs where "sortedVotersOf vs = x # xs"
        using ne s by (cases "sortedVotersOf vs") simp_all
      then show ?thesis using None by (simp add: getLatestTimestampForUser_def)
    qed
    then show ?thesis
      using Some None s p by (simp add: createVoteEmbed_def Let_def)
  next
    case (Some es)
    then show ?thesis
      using \<open>voters vd = Some vs\<close> s p
      by (simp add: createVoteEmbed_def Let_def forEachVoter_closed)
  qed
qed

text \<open>The selection and the shaping of the code are those of the specification.\<close>

lemma find_filter_head:
  "List.find P xs = (case filter P xs of [] \<Rightarrow> None | x # rest \<Rightarrow> Some x)"
  by (induction xs) simp_all

lemma latestVoteOf_spec: "latestVoteOf es n = specLatestEvent es n"
proof (cases "latestVoteOf es n")
  case None
  then have "\<forall>e \<in> set es. voteNickname e \<noteq> n" by (simp add: latestVoteOf_None)
  then have "filter (\<lambda>e. voteNickname e = n) es = []" by (simp add: filter_empty_conv)
  then show ?thesis using None by (simp add: specLatestEvent_def)
next
  case (Some e)
  define ms where "ms = filter (\<lambda>x. voteNickname x = n) es"
  from latestVoteOf_Some[OF Some] obtain later where
    e_in: "e \<in> set es" and nick: "voteNickname e = n"
    and max: "\<forall>e' \<in> set es. voteNickname e' = n \<longrightarrow> timestamp e' \<le> timestamp e"
    and first: "filter (\<lambda>x. voteNickname x = n \<and> timestamp x = timestamp e) es = e # later"
    by blast
  have e_ms: "e \<in> set ms" using e_in nick by (simp add: ms_def)
  have le: "\<forall>x \<in> set ms. timestamp x \<le> timestamp e" using max by (simp add: ms_def)
  have P: "list_all (\<lambda>y. timestamp y \<le> timestamp x) ms \<longleftrightarrow> timestamp x = timestamp e"
    if x: "x \<in> set ms" for x
  proof
    assume "list_all (\<lambda>y. timestamp y \<le> timestamp x) ms"
    then have "timestamp e \<le> timestamp x" using e_ms by (simp add: list_all_iff)
    moreover have "timestamp x \<le> timestamp e" using x le by simp
    ultimately show "timestamp x = timestamp e" by simp
  next
    assume "timestamp x = timestamp e"
    then show "list_all (\<lambda>y. timestamp y \<le> timestamp x) ms" using le by (simp add: list_all_iff)
  qed
  have "List.find (\<lambda>x. list_all (\<lambda>y. timestamp y \<le> timestamp x) ms) ms
        = List.find (\<lambda>x. timestamp x = timestamp e) ms"
    using P by (intro find_cong) simp_all
  moreover have "filter (\<lambda>x. timestamp x = timestamp e) ms = e # later"
    using first by (simp add: ms_def)
  ultimately have "List.find (\<lambda>x. list_all (\<lambda>y. timestamp y \<le> timestamp x) ms) ms = Some e"
    by (simp add: find_filter_head)
  then show ?thesis using Some by (simp add: specLatestEvent_def ms_def)
qed

lemma insort_key_map:
  "insort_key f (g x) (map g ys) = map g (insort_key (\<lambda>v. f (g v)) x ys)"
  by (induction ys) simp_all

lemma sort_key_map: "sort_key f (map g xs) = map g (sort_key (\<lambda>v. f (g v)) xs)"
  by (induction xs) (simp_all add: insort_key_map)

lemma records_spec: "leaderboardRecords h vs es = specShape h vs es"
  by (simp add: leaderboardRecords_def specShape_def sort_key_map sortedVotersOf_def
      arraySort_sort_key lastVoteDateOf_def latestVoteOf_spec)

lemma body_spec:
  "concat (map (\<lambda>(k, v). voterLines k v (lastVoteDateOf h (latestVoteOf es (nickname v))))
               (enumerate 0 (sortedVotersOf vs)))
   = concat (map (\<lambda>(k, nick, count, lastVote).
                    ''**'' @ natToString (k + 1) @ ''.** '' @ nick @ newline
                    @ ''**Votes:** '' @ numberToString count @ newline
                    @ ''**Last Vote:** '' @ lastVote @ newline @ newline)
                 (enumerate 0 (specShape h vs es)))"
  unfolding records_spec[symmetric]
  by (simp add: leaderboardRecords_def enumerate_map voterLines_def comp_def split_def)

section \<open>Lemmas on the cycle\<close>


lemma reach_changed:
  assumes "channelFetch e = ChannelResolved"
    and "votersResponse e = Resolved vd" and "votesResponse e = Resolved td"
    and "findOneOk e" and "db (serverKey e) = Some row"
    and "lastUpdateHash row \<noteq> generateDataHash (Some vd) (Some td)"
  shows "updateVoteMessage e db =
         changedBranch e db row (generateDataHash (Some vd) (Some td)) vd td"
  using assms
  by (simp add: updateVoteMessage_def fetchVoteCount_def fetchVoteTimestamps_def Let_def)

lemma reach_first:
  assumes "channelFetch e = ChannelResolved"
    and "votersResponse e = Resolved vd" and "votesResponse e = Resolved td"
    and "findOneOk e" and "db (serverKey e) = None"
  shows "updateVoteMessage e db =
         changedBranch e db (newVoteData (serverKey e) (clock e))
           (generateDataHash (Some vd) (Some td)) vd td"
proof -
  have "generateDataHash (Some vd) (Some td) \<noteq> []" by (rule generateDataHash_not_Nil)
  then show ?thesis
    using assms
    by (simp add: updateVoteMessage_def fetchVoteCount_def fetchVoteTimestamps_def
        newVoteData_def Let_def)
qed






lemma sample_reach:
  "channelFetch sampleEnv = ChannelResolved" "votersResponse sampleEnv = Resolved standingsAB"
  "votesResponse sampleEnv = Resolved eventsNone" "findOneOk sampleEnv"
  "serverKey sampleEnv = ''srv''" "hostOf sampleEnv = hostUTC" "clock sampleEnv = 1753300000000"
  "sendResult sampleEnv = Some ''m2''" "saveOk sampleEnv" "editOk sampleEnv"
  "messageFetch sampleEnv = MessageFound"
  by (simp_all add: sampleEnv_def)

section \<open>The fingerprint\<close>

text \<open>
  Claim C1, as the code has it. \<^verbatim>\<open>generateDataHash\<close> hashes the JSON text of the raw
  \<^verbatim>\<open>voters\<close> and \<^verbatim>\<open>votes\<close> arrays, not the shaped records: two pairs of payloads whose raw
  arrays agree (a missing payload or a missing array counting as the empty array) get
  the same token, whatever else in the payloads differs.
\<close>

theorem fingerprint_of_raw_arrays:
  assumes "votersOrEmpty vd1 = votersOrEmpty vd2" and "votesOrEmpty td1 = votesOrEmpty td2"
  shows "generateDataHash vd1 td1 = generateDataHash vd2 td2"
  using assms by (simp add: generateDataHash_def dataString_def)

theorem fingerprint_of_raw_arrays_witness:
  "votersOrEmpty (Some standingsAB) = votersOrEmpty (Some (standingsAB\<lparr>name := Some ''Survival''\<rparr>))
   \<and> votesOrEmpty (Some eventsNone) = votesOrEmpty (Some eventsNone)
   \<and> generateDataHash (Some standingsAB) (Some eventsNone)
     = generateDataHash (Some (standingsAB\<lparr>name := Some ''Survival''\<rparr>)) (Some eventsNone)"
  using fingerprint_of_raw_arrays[of "Some standingsAB"
      "Some (standingsAB\<lparr>name := Some ''Survival''\<rparr>)" "Some eventsNone" "Some eventsNone"]
  by (simp add: votersOrEmpty_def)

text \<open>
  Claim C1 as stated fails: the two standings below hold the same voters in a different
  order, so they shape to the same records, and their tokens differ.
\<close>

theorem fingerprint_of_shaped_records_counterexample:
  "leaderboardRecords hostUTC (votersOrEmpty (Some standingsAB)) (votesOrEmpty (Some eventsNone))
     = leaderboardRecords hostUTC (votersOrEmpty (Some standingsBA)) (votesOrEmpty (Some eventsNone))
   \<and> generateDataHash (Some standingsAB) (Some eventsNone)
     \<noteq> generateDataHash (Some standingsBA) (Some eventsNone)"
proof -
  have "votersOrEmpty (Some standingsAB) = [voterA, voterB]"
    and "votersOrEmpty (Some standingsBA) = [voterB, voterA]"
    by (simp_all add: votersOrEmpty_def standingsAB_def standingsBA_def)
  then have "leaderboardRecords hostUTC (votersOrEmpty (Some standingsAB)) (votesOrEmpty (Some eventsNone))
     = leaderboardRecords hostUTC (votersOrEmpty (Some standingsBA)) (votesOrEmpty (Some eventsNone))"
    by (simp add: leaderboardRecords_def sorted_AB sorted_BA)
  then show ?thesis by (simp add: hash_standingsAB hash_standingsBA)
qed

text \<open>
  Claim C10, as the code has it. The token is the decimal text of a 32-bit signed integer
  and is never empty, so it never equals the empty \<^verbatim>\<open>lastUpdateHash\<close> of a fresh document:
  in a cycle that finds no document the unchanged branch is not taken. A message is then
  sent when \<^verbatim>\<open>createVoteEmbed\<close> gives an embed and the send resolves.
\<close>

theorem first_cycle_takes_changed_branch:
  assumes "channelFetch e = ChannelResolved"
    and "votersResponse e = Resolved vd" and "votesResponse e = Resolved td"
    and "findOneOk e" and "db (serverKey e) = None"
  shows "(\<exists>n. - 2147483648 \<le> n \<and> n < 2147483648
              \<and> generateDataHash voteData timestampData = numberToString n)
       \<and> generateDataHash voteData timestampData \<noteq> []
       \<and> generateDataHash (Some vd) (Some td) \<noteq> lastUpdateHash (newVoteData (serverKey e) (clock e))
       \<and> outcome (updateVoteMessage e db) \<noteq> NoChangeLive
       \<and> outcome (updateVoteMessage e db) \<noteq> NoChangeNoMessage
       \<and> outcome (updateVoteMessage e db) \<noteq> Reposted
       \<and> (\<forall>emb newId. createVoteEmbed (hostOf e) (clock e) (Some vd) (Some td) = Inr (Some emb)
            \<longrightarrow> sendResult e = Some newId
            \<longrightarrow> actions (updateVoteMessage e db) = [Sent (Some emb) newId])"
proof -
  have r: "\<exists>n. - 2147483648 \<le> n \<and> n < 2147483648
              \<and> generateDataHash voteData timestampData = numberToString n"
    unfolding generateDataHash_def using hashLoop_range[of 0]
    by (intro exI[of _ "hashLoop 0 (dataString voteData timestampData)"]) simp
  have ne: "generateDataHash (Some vd) (Some td) \<noteq> []" by (rule generateDataHash_not_Nil)
  have u: "updateVoteMessage e db =
      changedBranch e db (newVoteData (serverKey e) (clock e))
        (generateDataHash (Some vd) (Some td)) vd td"
    using assms by (rule reach_first)
  have o: "outcome (updateVoteMessage e db) \<noteq> NoChangeLive
       \<and> outcome (updateVoteMessage e db) \<noteq> NoChangeNoMessage
       \<and> outcome (updateVoteMessage e db) \<noteq> Reposted"
    unfolding u
    by (auto simp: changedBranch_def sendAndSave_def saveStored_def split: sum.splits option.splits)
  have p: "\<forall>emb newId. createVoteEmbed (hostOf e) (clock e) (Some vd) (Some td) = Inr (Some emb)
            \<longrightarrow> sendResult e = Some newId
            \<longrightarrow> actions (updateVoteMessage e db) = [Sent (Some emb) newId]"
    unfolding u
    by (auto simp: changedBranch_def sendAndSave_def saveStored_def hasMessageId_def newVoteData_def)
  show ?thesis using r ne o p generateDataHash_not_Nil by (simp add: newVoteData_def)
qed

theorem first_cycle_takes_changed_branch_witness:
  "channelFetch sampleEnv = ChannelResolved
   \<and> votersResponse sampleEnv = Resolved standingsAB
   \<and> votesResponse sampleEnv = Resolved eventsNone
   \<and> findOneOk sampleEnv
   \<and> (Map.empty :: collection) (serverKey sampleEnv) = None
   \<and> createVoteEmbed (hostOf sampleEnv) (clock sampleEnv) (Some standingsAB) (Some eventsNone)
       = Inr (Some sampleEmbed)
   \<and> sendResult sampleEnv = Some ''m2''
   \<and> outcome (updateVoteMessage sampleEnv Map.empty) \<noteq> NoChangeLive
   \<and> actions (updateVoteMessage sampleEnv Map.empty) = [Sent (Some sampleEmbed) ''m2'']"
  using first_cycle_takes_changed_branch[of sampleEnv standingsAB eventsNone Map.empty]
  by (simp add: sample_reach embed_sample)

text \<open>
  Claim C10 as stated fails: in a first cycle whose standings arrive without a
  \<^verbatim>\<open>voters\<close> property, with a send that would resolve, no message is sent.
\<close>

theorem first_cycle_publishes_counterexample:
  "channelFetch noVotersEnv = ChannelResolved
   \<and> votersResponse noVotersEnv = Resolved standingsNoVoters
   \<and> votesResponse noVotersEnv = Resolved eventsNone
   \<and> sendResult noVotersEnv = Some ''m2''
   \<and> (Map.empty :: collection) (serverKey noVotersEnv) = None
   \<and> actions (updateVoteMessage noVotersEnv Map.empty) = []
   \<and> outcome (updateVoteMessage noVotersEnv Map.empty) = EmbedFailed"
proof -
  have f: "channelFetch noVotersEnv = ChannelResolved"
    "votersResponse noVotersEnv = Resolved standingsNoVoters"
    "votesResponse noVotersEnv = Resolved eventsNone" "findOneOk noVotersEnv"
    "sendResult noVotersEnv = Some ''m2''"
    by (simp_all add: noVotersEnv_def sampleEnv_def)
  have n: "(Map.empty :: collection) (serverKey noVotersEnv) = None" by simp
  have u: "updateVoteMessage noVotersEnv Map.empty =
      changedBranch noVotersEnv Map.empty (newVoteData (serverKey noVotersEnv) (clock noVotersEnv))
        (generateDataHash (Some standingsNoVoters) (Some eventsNone)) standingsNoVoters eventsNone"
    using f(1-4) n by (rule reach_first)
  have c: "createVoteEmbed h now (Some standingsNoVoters) (Some eventsNone) = Inr None" for h now
    by (simp add: createVoteEmbed_def standingsNoVoters_def)
  show ?thesis unfolding u using f by (simp add: changedBranch_def c)
qed

section \<open>The time conversion\<close>

text \<open>
  Claim C3, evaluated where it fails. The getters of \<^verbatim>\<open>convertESTtoIST\<close> read the local
  time of the host, so one input text gives different results on a host in UTC and
  on a host in Asia/Kolkata, under the same parse of the date text.
\<close>

theorem convertESTtoIST_reads_host_zone:
  "convertESTtoIST hostUTC (JStr ''July 23rd, 2025 02:27 AM EST'') = ''23/07/2025, 5:57:00 PM IST''
   \<and> convertESTtoIST hostKolkata (JStr ''July 23rd, 2025 02:27 AM EST'') = ''23/07/2025, 11:27:00 PM IST''
   \<and> dateParse hostUTC = dateParse hostKolkata"
  by (simp add: convert_sample[OF dateParse_hostUTC] convert_sample[OF dateParse_hostKolkata]
      format_sample_UTC format_sample_Kolkata dateParse_hostUTC dateParse_hostKolkata)

text \<open>
  Claim C8, evaluated where it fails. The text \<^verbatim>\<open>garbled\<close> is left as it is by the
  stripping and is not a date for the engine, yet the code parses it with \<^verbatim>\<open>' GMT-0500'\<close>
  appended, the engine answers a time value, the test of \<^verbatim>\<open>isNaN\<close> does not fire, and the
  function returns a date of the year 500 instead of \<^verbatim>\<open>Invalid Date\<close>.
\<close>

theorem convertESTtoIST_garbled_text:
  "stripOrdinal (trim (replaceFirst '' EST'' [] ''garbled'')) = ''garbled''
   \<and> newDate hostUTC (stripOrdinal (trim (replaceFirst '' EST'' [] ''garbled''))) = None
   \<and> newDate hostUTC (stripOrdinal (trim (replaceFirst '' EST'' [] ''garbled'')) @ '' GMT-0500'')
     = Some (- 46388678400000)
   \<and> convertESTtoIST hostUTC (JStr ''garbled'') = ''01/01/500, 10:30:00 AM IST''
   \<and> convertESTtoIST hostUTC (JStr ''garbled'') \<noteq> ''Invalid Date''"
proof -
  have s: "stripOrdinal (trim (replaceFirst '' EST'' [] ''garbled'')) = ''garbled''"
    by (simp add: trim_def isWhiteSpace_def isDigit_def ordinalSuffix_def)
  have n: "newDate hostUTC ''garbled'' = None"
    by (simp add: newDate_def dateParse_hostUTC sampleDateParse_def)
  show ?thesis
    unfolding s using n parse_garbled[OF dateParse_hostUTC]
    by (simp add: convert_garbled[OF dateParse_hostUTC] format_garbled_UTC)
qed

section \<open>The shaped records and the rendered body\<close>

text \<open>
  Claim C7. On a standings body with its \<^verbatim>\<open>voters\<close> and an events body with its \<^verbatim>\<open>votes\<close>:
  the sort of \<^verbatim>\<open>createVoteEmbed\<close> puts the voters by votes, highest first, voters with equal
  votes keeping their order; \<^verbatim>\<open>getLatestTimestampForUser\<close> returns the event the
  specification selects, which is \<^verbatim>\<open>null\<close> exactly when no event has the nickname and
  otherwise has the nickname, has the greatest timestamp among the events with the
  nickname and is the first such event of the payload; the loop renders, and
  \<^verbatim>\<open>createVoteEmbed\<close> (when the builder accepts the title and the text) returns, the
  records of the specification's shaping in their order.
\<close>

theorem records_sorted_with_latest_vote:
  assumes "voters vd = Some vs" and "votesOf td = Some es"
  shows "sorted_wrt (\<lambda>a b. votes a \<ge> votes b) (sortedVotersOf vs)
   \<and> (\<forall>k. filter (\<lambda>v. votes v = k) (sortedVotersOf vs) = filter (\<lambda>v. votes v = k) vs)
   \<and> getLatestTimestampForUser td n = Inr (specLatestEvent es n)
   \<and> (getLatestTimestampForUser td n = Inr None \<longleftrightarrow> (\<forall>e \<in> set es. voteNickname e \<noteq> n))
   \<and> (\<forall>e. getLatestTimestampForUser td n = Inr (Some e) \<longrightarrow>
         e \<in> set es \<and> voteNickname e = n
       \<and> (\<forall>e' \<in> set es. voteNickname e' = n \<longrightarrow> timestamp e' \<le> timestamp e)
       \<and> (\<exists>later. filter (\<lambda>x. voteNickname x = n \<and> timestamp x = timestamp e) es = e # later))
   \<and> forEachVoter h td 0 (sortedVotersOf vs) [] =
       Inr (concat (map (\<lambda>(k, nick, count, lastVote).
                     ''**'' @ natToString (k + 1) @ ''.** '' @ nick @ newline
                     @ ''**Votes:** '' @ numberToString count @ newline
                     @ ''**Last Vote:** '' @ lastVote @ newline @ newline)
                        (enumerate 0 (specShape h vs es))))
   \<and> (vs \<noteq> [] \<longrightarrow> titleAccepted (titleOf vd)
       \<longrightarrow> descriptionAccepted
             (concat (map (\<lambda>(k, nick, count, lastVote).
                     ''**'' @ natToString (k + 1) @ ''.** '' @ nick @ newline
                     @ ''**Votes:** '' @ numberToString count @ newline
                     @ ''**Last Vote:** '' @ lastVote @ newline @ newline)
                          (enumerate 0 (specShape h vs es))))
       \<longrightarrow> createVoteEmbed h now (Some vd) (Some td) =
             Inr (Some \<lparr>embedTitle = titleOf vd, embedColor = 44678, embedTimestamp = now,
                        embedFooter = ''Vote Tracker Bot'',
                        embedDescription =
                          concat (map (\<lambda>(k, nick, count, lastVote).
                     ''**'' @ natToString (k + 1) @ ''.** '' @ nick @ newline
                     @ ''**Votes:** '' @ numberToString count @ newline
                     @ ''**Last Vote:** '' @ lastVote @ newline @ newline)
                                      (enumerate 0 (specShape h vs es)))\<rparr>))"
proof -
  have g: "getLatestTimestampForUser td n = Inr (latestVoteOf es n)"
    using assms(2) by (simp add: getLatestTimestampForUser_def)
  have sel: "getLatestTimestampForUser td n = Inr (specLatestEvent es n)"
    using g by (simp add: latestVoteOf_spec)
  have none: "getLatestTimestampForUser td n = Inr None \<longleftrightarrow> (\<forall>e \<in> set es. voteNickname e \<noteq> n)"
    using g by (simp add: latestVoteOf_None)
  have some: "\<forall>e. getLatestTimestampForUser td n = Inr (Some e) \<longrightarrow>
         e \<in> set es \<and> voteNickname e = n
       \<and> (\<forall>e' \<in> set es. voteNickname e' = n \<longrightarrow> timestamp e' \<le> timestamp e)
       \<and> (\<exists>later. filter (\<lambda>x. voteNickname x = n \<and> timestamp x = timestamp e) es = e # later)"
    using g latestVoteOf_Some[of es n] by simp
  have desc: "sorted_wrt (\<lambda>a b. votes a \<ge> votes b) (sortedVotersOf vs)"
    unfolding sortedVotersOf_def by (rule arraySort_descending)
  have stable: "\<forall>k. filter (\<lambda>v. votes v = k) (sortedVotersOf vs) = filter (\<lambda>v. votes v = k) vs"
    unfolding sortedVotersOf_def by (simp add: arraySort_stable)
  have loop: "forEachVoter h td 0 (sortedVotersOf vs) [] =
       Inr (concat (map (\<lambda>(k, nick, count, lastVote).
                     ''**'' @ natToString (k + 1) @ ''.** '' @ nick @ newline
                     @ ''**Votes:** '' @ numberToString count @ newline
                     @ ''**Last Vote:** '' @ lastVote @ newline @ newline)
                        (enumerate 0 (specShape h vs es))))"
    using assms(2) by (simp add: forEachVoter_closed body_spec)
  have emb: "vs \<noteq> [] \<longrightarrow> titleAccepted (titleOf vd)
       \<longrightarrow> descriptionAccepted
             (concat (map (\<lambda>(k, nick, count, lastVote).
                     ''**'' @ natToString (k + 1) @ ''.** '' @ nick @ newline
                     @ ''**Votes:** '' @ numberToString count @ newline
                     @ ''**Last Vote:** '' @ lastVote @ newline @ newline)
                          (enumerate 0 (specShape h vs es))))
       \<longrightarrow> createVoteEmbed h now (Some vd) (Some td) =
             Inr (Some \<lparr>embedTitle = titleOf vd, embedColor = 44678, embedTimestamp = now,
                        embedFooter = ''Vote Tracker Bot'',
                        embedDescription =
                          concat (map (\<lambda>(k, nick, count, lastVote).
                     ''**'' @ natToString (k + 1) @ ''.** '' @ nick @ newline
                     @ ''**Votes:** '' @ numberToString count @ newline
                     @ ''**Last Vote:** '' @ lastVote @ newline @ newline)
                                      (enumerate 0 (specShape h vs es)))\<rparr>)"
    using assms by (simp add: createVoteEmbed_cases body_spec)
  show ?thesis
    using desc stable sel none some loop emb by blast
qed

theorem records_sorted_with_latest_vote_witness:
  "voters standingsABC = Some [voterA, voterB, voterC]
   \<and> votesOf eventsA = Some [voteAOld, voteA]
   \<and> filter (\<lambda>v. votes v = 5) (sortedVotersOf [voterA, voterB, voterC]) = [voterB, voterC]
   \<and> getLatestTimestampForUser eventsA ''A'' = Inr (Some voteA)
   \<and> voteA \<in> set [voteAOld, voteA] \<and> voteNickname voteA = ''A''
   \<and> timestamp voteAOld \<le> timestamp voteA
   \<and> getLatestTimestampForUser eventsA ''B'' = Inr None
   \<and> specShape hostUTC [voterA, voterB, voterC] [voteAOld, voteA]
       = [(''B'', 5, ''Unknown''), (''C'', 5, ''Unknown''), (''A'', 3, ''23/07/2025, 5:57:00 PM IST'')]
   \<and> [voterA, voterB, voterC] \<noteq> []
   \<and> titleAccepted (titleOf standingsABC)
   \<and> descriptionAccepted (embedDescription sampleEmbedABC)
   \<and> forEachVoter hostUTC eventsA 0 (sortedVotersOf [voterA, voterB, voterC]) []
       = Inr (embedDescription sampleEmbedABC)
   \<and> createVoteEmbed hostUTC 1753300000000 (Some standingsABC) (Some eventsA)
       = Inr (Some sampleEmbedABC)"
proof -
  have pay: "voters standingsABC = Some [voterA, voterB, voterC]"
    "votesOf eventsA = Some [voteAOld, voteA]" "titleOf standingsABC = ''Minecraft Server''"
    by (simp_all add: standingsABC_def eventsA_def titleOf_def)
  note t = records_sorted_with_latest_vote[OF pay(1,2), of "''A''" hostUTC 1753300000000]
  note u = records_sorted_with_latest_vote[OF pay(1,2), of "''B''" hostUTC 1753300000000]
  have "\<forall>k. filter (\<lambda>v. votes v = k) (sortedVotersOf [voterA, voterB, voterC])
            = filter (\<lambda>v. votes v = k) [voterA, voterB, voterC]"
    using t by blast
  then have "filter (\<lambda>v. votes v = 5) (sortedVotersOf [voterA, voterB, voterC])
            = filter (\<lambda>v. votes v = 5) [voterA, voterB, voterC]"
    by blast
  then have ties: "filter (\<lambda>v. votes v = 5) (sortedVotersOf [voterA, voterB, voterC]) = [voterB, voterC]"
    by (simp add: voterA_def voterB_def voterC_def)
  have "getLatestTimestampForUser eventsA ''A'' = Inr (specLatestEvent [voteAOld, voteA] ''A'')"
    using t by blast
  then have selA: "getLatestTimestampForUser eventsA ''A'' = Inr (Some voteA)"
    by (simp add: specLatest_sample_A)
  have "getLatestTimestampForUser eventsA ''B'' = Inr (specLatestEvent [voteAOld, voteA] ''B'')"
    using u by blast
  then have selB: "getLatestTimestampForUser eventsA ''B'' = Inr None"
    by (simp add: specLatest_sample_other)
  have "\<forall>e. getLatestTimestampForUser eventsA ''A'' = Inr (Some e) \<longrightarrow>
         e \<in> set [voteAOld, voteA] \<and> voteNickname e = ''A''
       \<and> (\<forall>e' \<in> set [voteAOld, voteA]. voteNickname e' = ''A'' \<longrightarrow> timestamp e' \<le> timestamp e)
       \<and> (\<exists>later. filter (\<lambda>x. voteNickname x = ''A'' \<and> timestamp x = timestamp e) [voteAOld, voteA]
                     = e # later)"
    using t by blast
  with selA have latest: "voteA \<in> set [voteAOld, voteA] \<and> voteNickname voteA = ''A''
       \<and> (\<forall>e' \<in> set [voteAOld, voteA]. voteNickname e' = ''A'' \<longrightarrow> timestamp e' \<le> timestamp voteA)"
    by blast
  have "voteNickname voteAOld = ''A''" by (simp add: voteAOld_def)
  with latest have older: "timestamp voteAOld \<le> timestamp voteA" by simp
  have "forEachVoter hostUTC eventsA 0 (sortedVotersOf [voterA, voterB, voterC]) [] =
       Inr (concat (map (\<lambda>(k, nick, count, lastVote).
                     ''**'' @ natToString (k + 1) @ ''.** '' @ nick @ newline
                     @ ''**Votes:** '' @ numberToString count @ newline
                     @ ''**Last Vote:** '' @ lastVote @ newline @ newline)
                        (enumerate 0 (specShape hostUTC [voterA, voterB, voterC] [voteAOld, voteA]))))"
    using t by blast
  then have loop: "forEachVoter hostUTC eventsA 0 (sortedVotersOf [voterA, voterB, voterC]) []
       = Inr (embedDescription sampleEmbedABC)"
    unfolding specShape_sample body_sample_ABC .
  have "[voterA, voterB, voterC] \<noteq> [] \<longrightarrow> titleAccepted (titleOf standingsABC)
       \<longrightarrow> descriptionAccepted
             (concat (map (\<lambda>(k, nick, count, lastVote).
                     ''**'' @ natToString (k + 1) @ ''.** '' @ nick @ newline
                     @ ''**Votes:** '' @ numberToString count @ newline
                     @ ''**Last Vote:** '' @ lastVote @ newline @ newline)
                          (enumerate 0 (specShape hostUTC [voterA, voterB, voterC] [voteAOld, voteA]))))
       \<longrightarrow> createVoteEmbed hostUTC 1753300000000 (Some standingsABC) (Some eventsA) =
             Inr (Some \<lparr>embedTitle = titleOf standingsABC, embedColor = 44678,
                        embedTimestamp = 1753300000000, embedFooter = ''Vote Tracker Bot'',
                        embedDescription =
                          concat (map (\<lambda>(k, nick, count, lastVote).
                     ''**'' @ natToString (k + 1) @ ''.** '' @ nick @ newline
                     @ ''**Votes:** '' @ numberToString count @ newline
                     @ ''**Last Vote:** '' @ lastVote @ newline @ newline)
                                      (enumerate 0 (specShape hostUTC [voterA, voterB, voterC]
                                                      [voteAOld, voteA])))\<rparr>)"
    using t by blast
  then have "createVoteEmbed hostUTC 1753300000000 (Some standingsABC) (Some eventsA) =
          Inr (Some \<lparr>embedTitle = ''Minecraft Server'', embedColor = 44678,
                     embedTimestamp = 1753300000000, embedFooter = ''Vote Tracker Bot'',
                     embedDescription = embedDescription sampleEmbedABC\<rparr>)"
    unfolding specShape_sample body_sample_ABC pay(3) using accepted_samples(1,2) by simp
  then have emb: "createVoteEmbed hostUTC 1753300000000 (Some standingsABC) (Some eventsA)
       = Inr (Some sampleEmbedABC)"
    by (simp add: sampleEmbedABC_def)
  show ?thesis
    using pay ties selA selB latest older loop emb accepted_samples(1,2)
    by (simp add: specShape_sample)
qed

text \<open>
  Claim C9, as the code has it. What \<^verbatim>\<open>createVoteEmbed\<close> returns on two bodies, case by case. Without a
  \<^verbatim>\<open>voters\<close> array it returns \<^verbatim>\<open>null\<close>. With an empty array the body of the message is the
  fixed text \<^verbatim>\<open>No votes this month yet!\<close>. With a non-empty array (and the \<^verbatim>\<open>votes\<close> array of
  the events, without which the loop throws) the body is, for each record of the
  shaping in order, a block of three lines: the position counted from 1 with the
  nickname, the votes, and the last vote date. The builder throws on a title of more
  than 256 code units or a body of more than 4096.
\<close>

theorem body_placeholder_or_numbered_list:
  "createVoteEmbed h now (Some vd) (Some td) =
     (case voters vd of
        None \<Rightarrow> Inr None
      | Some vs \<Rightarrow>
          if \<not> titleAccepted (titleOf vd) then Inl ValidationError
          else if vs = [] then
            Inr (Some \<lparr>embedTitle = titleOf vd, embedColor = 44678, embedTimestamp = now,
                       embedFooter = ''Vote Tracker Bot'',
                       embedDescription = ''No votes this month yet!''\<rparr>)
          else
            (case votesOf td of
               None \<Rightarrow> Inl TypeError
             | Some es \<Rightarrow>
                 if \<not> descriptionAccepted
                        (concat (map (\<lambda>(k, nick, count, lastVote).
                     ''**'' @ natToString (k + 1) @ ''.** '' @ nick @ newline
                     @ ''**Votes:** '' @ numberToString count @ newline
                     @ ''**Last Vote:** '' @ lastVote @ newline @ newline)
                                     (enumerate 0 (specShape h vs es))))
                 then Inl ValidationError
                 else
                   Inr (Some \<lparr>embedTitle = titleOf vd, embedColor = 44678, embedTimestamp = now,
                              embedFooter = ''Vote Tracker Bot'',
                              embedDescription =
                                concat (map (\<lambda>(k, nick, count, lastVote).
                     ''**'' @ natToString (k + 1) @ ''.** '' @ nick @ newline
                     @ ''**Votes:** '' @ numberToString count @ newline
                     @ ''**Last Vote:** '' @ lastVote @ newline @ newline)
                                            (enumerate 0 (specShape h vs es)))\<rparr>)))"
  by (simp add: createVoteEmbed_cases body_spec split: option.splits)

theorem body_placeholder_or_numbered_list_witness:
  "voters standingsEmpty = Some []
   \<and> createVoteEmbed hostUTC 1753300000000 (Some standingsEmpty) (Some eventsNone)
       = Inr (Some emptyBoardEmbed)
   \<and> embedDescription emptyBoardEmbed = ''No votes this month yet!''
   \<and> voters standingsABC = Some [voterA, voterB, voterC]
   \<and> votesOf eventsA = Some [voteAOld, voteA]
   \<and> createVoteEmbed hostUTC 1753300000000 (Some standingsABC) (Some eventsA)
       = Inr (Some sampleEmbedABC)
   \<and> embedDescription sampleEmbedABC =
        ''**1.** B'' @ newline @ ''**Votes:** 5'' @ newline @ ''**Last Vote:** Unknown''
        @ newline @ newline
        @ ''**2.** C'' @ newline @ ''**Votes:** 5'' @ newline @ ''**Last Vote:** Unknown''
        @ newline @ newline
        @ ''**3.** A'' @ newline @ ''**Votes:** 3'' @ newline
        @ ''**Last Vote:** 23/07/2025, 5:57:00 PM IST'' @ newline @ newline
   \<and> createVoteEmbed hostUTC 1753300000000 (Some standingsABC) (Some eventsMalformed)
       = Inl TypeError"
proof -
  have pay: "voters standingsEmpty = Some []" "titleOf standingsEmpty = ''Minecraft Server''"
    "voters standingsABC = Some [voterA, voterB, voterC]"
    "titleOf standingsABC = ''Minecraft Server''" "votesOf eventsA = Some [voteAOld, voteA]"
    "votesOf eventsMalformed = None"
    by (simp_all add: standingsEmpty_def standingsABC_def eventsA_def eventsMalformed_def titleOf_def)
  have empty: "createVoteEmbed hostUTC 1753300000000 (Some standingsEmpty) (Some eventsNone)
       = Inr (Some emptyBoardEmbed)"
    using body_placeholder_or_numbered_list[of hostUTC 1753300000000 standingsEmpty eventsNone]
      accepted_samples(1)
    unfolding pay by (simp add: emptyBoardEmbed_def)
  have "createVoteEmbed hostUTC 1753300000000 (Some standingsABC) (Some eventsA) =
          Inr (Some \<lparr>embedTitle = ''Minecraft Server'', embedColor = 44678,
                     embedTimestamp = 1753300000000, embedFooter = ''Vote Tracker Bot'',
                     embedDescription = embedDescription sampleEmbedABC\<rparr>)"
    using body_placeholder_or_numbered_list[of hostUTC 1753300000000 standingsABC eventsA]
      accepted_samples(1,2)
    unfolding pay option.case specShape_sample body_sample_ABC by simp
  then have list: "createVoteEmbed hostUTC 1753300000000 (Some standingsABC) (Some eventsA)
       = Inr (Some sampleEmbedABC)"
    by (simp add: sampleEmbedABC_def)
  have thrown: "createVoteEmbed hostUTC 1753300000000 (Some standingsABC) (Some eventsMalformed)
       = Inl TypeError"
    using body_placeholder_or_numbered_list[of hostUTC 1753300000000 standingsABC eventsMalformed]
      accepted_samples(1)
    unfolding pay option.case by simp
  show ?thesis
    using pay empty list thrown by (simp add: emptyBoardEmbed_def sampleEmbedABC_def)
qed

text \<open>
  Claim C9 as stated fails on a board whose text is longer than the builder accepts:
  the records are not empty, and \<^verbatim>\<open>createVoteEmbed\<close> throws in \<^verbatim>\<open>setDescription\<close> instead of
  returning a body with the numbered list.
\<close>

theorem oversized_body_counterexample:
  "voters standingsLong = Some [voterLong]
   \<and> votesOf eventsNone = Some []
   \<and> specShape hostUTC [voterLong] [] = [(longNickname, 1, ''Unknown'')]
   \<and> titleAccepted (titleOf standingsLong)
   \<and> 4096 < length (''**'' @ natToString 1 @ ''.** '' @ longNickname @ newline
                     @ ''**Votes:** '' @ numberToString 1 @ newline
                     @ ''**Last Vote:** '' @ ''Unknown'' @ newline @ newline)
   \<and> createVoteEmbed hostUTC 1753300000000 (Some standingsLong) (Some eventsNone)
       = Inl ValidationError"
proof -
  have pay: "voters standingsLong = Some [voterLong]" "votesOf eventsNone = Some []"
    "titleOf standingsLong = ''Minecraft Server''"
    by (simp_all add: standingsLong_def eventsNone_def titleOf_def)
  have len: "length longNickname = 4097" by (simp add: longNickname_def)
  have shape: "specShape hostUTC [voterLong] [] = [(longNickname, 1, ''Unknown'')]"
    by (simp add: specShape_def specLatestEvent_def voterLong_def)
  have long: "4096 < length (''**'' @ natToString 1 @ ''.** '' @ longNickname @ newline
                     @ ''**Votes:** '' @ numberToString 1 @ newline
                     @ ''**Last Vote:** '' @ ''Unknown'' @ newline @ newline)"
    by (simp add: len del: natToString.simps)
  have sorted: "sortedVotersOf [voterLong] = [voterLong]"
    by (simp add: sortedVotersOf_def)
  have refused: "\<not> descriptionAccepted (voterLines 0 voterLong ''Unknown'')"
    by (simp add: descriptionAccepted_def voterLines_def voterLong_def len del: natToString.simps)
  have thrown: "createVoteEmbed hostUTC 1753300000000 (Some standingsLong) (Some eventsNone)
       = Inl ValidationError"
    using refused accepted_samples(1)
    by (simp add: createVoteEmbed_def pay sorted getLatestTimestampForUser_def latestVoteOf_def
        lastVoteDateOf_def del: natToString.simps)
  show ?thesis
    using pay shape long thrown accepted_samples(1) by simp
qed

section \<open>The reconciliation\<close>






text \<open>
  Claim C5, as the code has it. A document exists with a message id, the new token
  differs from the stored one, the recorded message is found and accepts the edit, and
  \<^verbatim>\<open>createVoteEmbed\<close> yields an embed. Then (the save resolving) the message is edited in
  place: nothing is sent, the document is saved with the new token and a new
  \<^verbatim>\<open>updatedAt\<close>, and its \<^verbatim>\<open>lastMessageId\<close> is the old one.
\<close>

theorem changed_hash_edits_in_place:
  assumes "channelFetch e = ChannelResolved"
    and "votersResponse e = Resolved vd" and "votesResponse e = Resolved td"
    and "findOneOk e" and "db (serverKey e) = Some row"
    and "lastMessageId row = Some mid" and "mid \<noteq> []"
    and "lastUpdateHash row \<noteq> generateDataHash (Some vd) (Some td)"
    and "messageFetch e = MessageFound" and "editOk e"
    and "createVoteEmbed (hostOf e) (clock e) (Some vd) (Some td) = Inr (Some emb)"
    and "saveOk e"
  shows "actions (updateVoteMessage e db) = [Edited mid emb]
       \<and> store (updateVoteMessage e db) =
           db(serverId row \<mapsto> row\<lparr>lastUpdateHash := generateDataHash (Some vd) (Some td),
                                     updatedAt := clock e\<rparr>)
       \<and> lastMessageId (row\<lparr>lastUpdateHash := generateDataHash (Some vd) (Some td),
                             updatedAt := clock e\<rparr>) = lastMessageId row
       \<and> outcome (updateVoteMessage e db) = UpdatedExisting"
proof -
  have u: "updateVoteMessage e db =
         changedBranch e db row (generateDataHash (Some vd) (Some td)) vd td"
    using assms(1-5,8) by (rule reach_changed)
  show ?thesis
    unfolding u using assms(6,7,9-12)
    by (simp add: changedBranch_def saveStored_def)
qed

theorem changed_hash_edits_in_place_witness:
  "staleDb (serverKey sampleEnv) = Some staleRow
   \<and> lastMessageId staleRow = Some ''m1''
   \<and> lastUpdateHash staleRow \<noteq> generateDataHash (Some standingsAB) (Some eventsNone)
   \<and> messageFetch sampleEnv = MessageFound \<and> editOk sampleEnv \<and> saveOk sampleEnv
   \<and> createVoteEmbed (hostOf sampleEnv) (clock sampleEnv) (Some standingsAB) (Some eventsNone)
       = Inr (Some sampleEmbed)
   \<and> actions (updateVoteMessage sampleEnv staleDb) = [Edited ''m1'' sampleEmbed]
   \<and> store (updateVoteMessage sampleEnv staleDb) =
       staleDb(''srv'' \<mapsto> staleRow\<lparr>lastUpdateHash := ''1098643565'', updatedAt := 1753300000000\<rparr>)
   \<and> outcome (updateVoteMessage sampleEnv staleDb) = UpdatedExisting"
proof -
  have row: "staleDb ''srv'' = Some staleRow" "lastMessageId staleRow = Some ''m1''"
    "lastUpdateHash staleRow = ''0''" "serverId staleRow = ''srv''"
    by (simp_all add: staleDb_def staleRow_def storedRow_def)
  show ?thesis
    using changed_hash_edits_in_place[of sampleEnv standingsAB eventsNone staleDb staleRow
        "''m1''" sampleEmbed]
    by (simp add: sample_reach row embed_sample hash_standingsAB)
qed

text \<open>
  Claim C5 as stated fails: the new token differs from the stored one and the recorded
  message is found and would accept the edit, but the standings arrive without a
  \<^verbatim>\<open>voters\<close> property; the cycle returns at \<^verbatim>\<open>Failed to create embed\<close>, edits nothing and
  leaves the document with its old token.
\<close>

theorem changed_hash_without_voters_counterexample:
  "staleDb (serverKey noVotersEnv) = Some staleRow
   \<and> lastMessageId staleRow = Some ''m1''
   \<and> lastUpdateHash staleRow \<noteq> generateDataHash (Some standingsNoVoters) (Some eventsNone)
   \<and> messageFetch noVotersEnv = MessageFound \<and> editOk noVotersEnv \<and> saveOk noVotersEnv
   \<and> actions (updateVoteMessage noVotersEnv staleDb) = []
   \<and> store (updateVoteMessage noVotersEnv staleDb) = staleDb
   \<and> outcome (updateVoteMessage noVotersEnv staleDb) = EmbedFailed"
proof -
  have f: "channelFetch noVotersEnv = ChannelResolved"
    "votersResponse noVotersEnv = Resolved standingsNoVoters"
    "votesResponse noVotersEnv = Resolved eventsNone" "findOneOk noVotersEnv"
    "serverKey noVotersEnv = ''srv''" "messageFetch noVotersEnv = MessageFound"
    "editOk noVotersEnv" "saveOk noVotersEnv"
    by (simp_all add: noVotersEnv_def sampleEnv_def)
  have row: "staleDb ''srv'' = Some staleRow" "lastMessageId staleRow = Some ''m1''"
    "lastUpdateHash staleRow = ''0''"
    by (simp_all add: staleDb_def staleRow_def storedRow_def)
  have k: "staleDb (serverKey noVotersEnv) = Some staleRow" by (simp add: f row)
  have d: "lastUpdateHash staleRow \<noteq> generateDataHash (Some standingsNoVoters) (Some eventsNone)"
    by (simp add: row hash_no_voters)
  have u: "updateVoteMessage noVotersEnv staleDb =
      changedBranch noVotersEnv staleDb staleRow
        (generateDataHash (Some standingsNoVoters) (Some eventsNone)) standingsNoVoters eventsNone"
    using f(1-4) k d by (rule reach_changed)
  have c: "createVoteEmbed h now (Some standingsNoVoters) (Some eventsNone) = Inr None" for h now
    by (simp add: createVoteEmbed_def standingsNoVoters_def)
  show ?thesis
    unfolding u using k d f row by (simp add: changedBranch_def c)
qed






end
